theory Spec2Isabelle
  imports Complex_Main
begin

section \<open>Python values used by the dashboard callback\<close>

text \<open>
  The repository is a single Dash application (\<^verbatim>\<open>main.py\<close>). Its only computation is the
  callback \<^verbatim>\<open>update_dashboard\<close>, which looks a district up in the loaded data frame,
  coerces the row's cells with \<^verbatim>\<open>safe\<close>, derives a population forecast and waste ratios,
  poses a vehicle-sizing integer program to the PuLP solver and lays the numbers out as
  four page components.

  Exceptions of the Python code are values of type \<open>error\<close>; a computation that may raise
  returns \<open>error + 'a\<close> with \<open>Inl\<close> for the exception.
\<close>

datatype error =
  ValueError | TypeError | OverflowError | ZeroDivisionError | IndexError | KeyError
  | PulpSolverError

definition bindE :: "error + 'a \<Rightarrow> ('a \<Rightarrow> error + 'b) \<Rightarrow> error + 'b" where
  "bindE m f = (case m of Inl e \<Rightarrow> Inl e | Inr v \<Rightarrow> f v)"

fun mapE :: "('a \<Rightarrow> error + 'b) \<Rightarrow> 'a list \<Rightarrow> error + 'b list" where
  "mapE f [] = Inr []"
| "mapE f (x # xs) = bindE (f x) (\<lambda>y. bindE (mapE f xs) (\<lambda>ys. Inr (y # ys)))"

subsection \<open>Floats\<close>

text \<open>
  A Python float is a finite number, one of the two infinities, or NaN. A finite float is
  modelled by the real number it stands for. The special values and the exceptions of the
  float operations are modelled throughout. The rounding to binary64 is modelled where a
  float is made from an int or from text and in the arithmetic of the waste ratios (the
  operations \<open>fl_sub\<close>, \<open>fl_mul\<close>, \<open>fl_div\<close> below); the arithmetic of the population
  forecast (\<open>pf_add\<close>, \<open>pf_sub\<close>, \<open>pf_mul\<close>, \<open>pf_div\<close>, \<open>pf_pow\<close>) is kept exact.
\<close>

datatype pyfloat = Fin real | PInf | NInf | NaN

fun pf_less :: "pyfloat \<Rightarrow> pyfloat \<Rightarrow> bool" where
  "pf_less NaN _ = False"
| "pf_less _ NaN = False"
| "pf_less (Fin a) (Fin b) = (a < b)"
| "pf_less PInf _ = False"
| "pf_less _ PInf = True"
| "pf_less _ NInf = False"
| "pf_less NInf _ = True"

definition pf_greater :: "pyfloat \<Rightarrow> pyfloat \<Rightarrow> bool" where
  "pf_greater x y = pf_less y x"

text \<open>\<^verbatim>\<open>x >= y\<close> on floats: false as soon as one side is NaN.\<close>

fun pf_ge :: "pyfloat \<Rightarrow> pyfloat \<Rightarrow> bool" where
  "pf_ge NaN _ = False"
| "pf_ge _ NaN = False"
| "pf_ge x y = (\<not> pf_less x y)"

fun pf_neg :: "pyfloat \<Rightarrow> pyfloat" where
  "pf_neg (Fin a) = Fin (- a)"
| "pf_neg PInf = NInf"
| "pf_neg NInf = PInf"
| "pf_neg NaN = NaN"

fun pf_add :: "pyfloat \<Rightarrow> pyfloat \<Rightarrow> pyfloat" where
  "pf_add NaN _ = NaN"
| "pf_add _ NaN = NaN"
| "pf_add (Fin a) (Fin b) = Fin (a + b)"
| "pf_add PInf NInf = NaN"
| "pf_add NInf PInf = NaN"
| "pf_add PInf _ = PInf"
| "pf_add _ PInf = PInf"
| "pf_add NInf _ = NInf"
| "pf_add _ NInf = NInf"

definition pf_sub :: "pyfloat \<Rightarrow> pyfloat \<Rightarrow> pyfloat" where
  "pf_sub x y = pf_add x (pf_neg y)"

text \<open>The infinity with the sign of a non-zero real.\<close>

definition inf_of_sign :: "real \<Rightarrow> pyfloat" where
  "inf_of_sign s = (if s = 0 then NaN else if 0 < s then PInf else NInf)"

fun pf_mul :: "pyfloat \<Rightarrow> pyfloat \<Rightarrow> pyfloat" where
  "pf_mul NaN _ = NaN"
| "pf_mul _ NaN = NaN"
| "pf_mul (Fin a) (Fin b) = Fin (a * b)"
| "pf_mul (Fin a) PInf = inf_of_sign a"
| "pf_mul (Fin a) NInf = inf_of_sign (- a)"
| "pf_mul PInf (Fin b) = inf_of_sign b"
| "pf_mul NInf (Fin b) = inf_of_sign (- b)"
| "pf_mul PInf PInf = PInf"
| "pf_mul NInf NInf = PInf"
| "pf_mul PInf NInf = NInf"
| "pf_mul NInf PInf = NInf"

text \<open>Float division raises \<^verbatim>\<open>ZeroDivisionError\<close> whenever the divisor is zero.\<close>

fun pf_div :: "pyfloat \<Rightarrow> pyfloat \<Rightarrow> error + pyfloat" where
  "pf_div x (Fin b) =
     (if b = 0 then Inl ZeroDivisionError
      else (case x of
              Fin a \<Rightarrow> Inr (Fin (a / b))
            | PInf \<Rightarrow> Inr (inf_of_sign b)
            | NInf \<Rightarrow> Inr (inf_of_sign (- b))
            | NaN \<Rightarrow> Inr NaN))"
| "pf_div _ NaN = Inr NaN"
| "pf_div (Fin a) _ = Inr (Fin 0)"
| "pf_div _ _ = Inr NaN"

text \<open>\<^verbatim>\<open>min(a, b)\<close> keeps its first argument unless the second is smaller.\<close>

definition py_min :: "pyfloat \<Rightarrow> pyfloat \<Rightarrow> pyfloat" where
  "py_min a b = (if pf_less b a then b else a)"

text \<open>
  A number that may have left the reals: \<^verbatim>\<open>x ** y\<close> with a negative finite base and a
  non-integral exponent is a Python \<^verbatim>\<open>complex\<close>. The value of a complex result is not
  modelled, only that it is one.
\<close>

datatype pynum = Float pyfloat | Complex_number

text \<open>\<^verbatim>\<open>x ** y\<close> for a float \<open>x\<close> and a finite float exponent \<open>y\<close>.\<close>

definition pf_pow :: "pyfloat \<Rightarrow> real \<Rightarrow> error + pynum" where
  "pf_pow x y =
     (if y = 0 then Inr (Float (Fin 1))
      else (case x of
              NaN \<Rightarrow> Inr (Float NaN)
            | PInf \<Rightarrow> Inr (Float (if 0 < y then PInf else Fin 0))
            | NInf \<Rightarrow>
                Inr (Float (if 0 < y
                            then (if of_int \<lfloor>y\<rfloor> = y \<and> odd \<lfloor>y\<rfloor> then NInf else PInf)
                            else Fin 0))
            | Fin r \<Rightarrow>
                (if r = 0 then (if y < 0 then Inl ZeroDivisionError else Inr (Float (Fin 0)))
                 else if 0 < r then Inr (Float (Fin (r powr y)))
                 else if of_int \<lfloor>y\<rfloor> = y then Inr (Float (Fin (power_int r \<lfloor>y\<rfloor>)))
                 else Inr Complex_number)))"

text \<open>\<^verbatim>\<open>x ** n\<close> for a float \<open>x\<close> and an int \<open>n \<ge> 0\<close>.\<close>

definition pf_pow_nat :: "pyfloat \<Rightarrow> nat \<Rightarrow> pyfloat" where
  "pf_pow_nat x n =
     (if n = 0 then Fin 1
      else (case x of
              NaN \<Rightarrow> NaN
            | PInf \<Rightarrow> PInf
            | NInf \<Rightarrow> (if odd n then NInf else PInf)
            | Fin r \<Rightarrow> Fin (r ^ n)))"

text \<open>Arithmetic with a possibly complex operand stays complex; none of it raises.\<close>

fun num_add :: "pynum \<Rightarrow> pynum \<Rightarrow> pynum" where
  "num_add (Float a) (Float b) = Float (pf_add a b)"
| "num_add _ _ = Complex_number"

fun num_sub :: "pynum \<Rightarrow> pynum \<Rightarrow> pynum" where
  "num_sub (Float a) (Float b) = Float (pf_sub a b)"
| "num_sub _ _ = Complex_number"

fun num_mul :: "pynum \<Rightarrow> pynum \<Rightarrow> pynum" where
  "num_mul (Float a) (Float b) = Float (pf_mul a b)"
| "num_mul _ _ = Complex_number"

fun num_pow_nat :: "pynum \<Rightarrow> nat \<Rightarrow> pynum" where
  "num_pow_nat (Float a) n = Float (pf_pow_nat a n)"
| "num_pow_nat Complex_number n = Complex_number"

text \<open>Python rounds halves to the even neighbour.\<close>

definition round_half_even :: "real \<Rightarrow> int" where
  "round_half_even r =
     (let f = \<lfloor>r\<rfloor>; d = r - of_int f
      in if d < 1 / 2 then f else if 1 / 2 < d then f + 1 else if even f then f else f + 1)"

text \<open>\<^verbatim>\<open>round(val)\<close>: an int; NaN and the infinities raise.\<close>

fun py_round :: "pynum \<Rightarrow> error + int" where
  "py_round (Float (Fin r)) = Inr (round_half_even r)"
| "py_round (Float NaN) = Inl ValueError"
| "py_round (Float _) = Inl OverflowError"
| "py_round Complex_number = Inl TypeError"

text \<open>\<^verbatim>\<open>round(val, 2)\<close>: a float; a complex argument raises.\<close>

fun py_round2 :: "pynum \<Rightarrow> error + pyfloat" where
  "py_round2 (Float (Fin r)) = Inr (Fin (of_int (round_half_even (r * 100)) / 100))"
| "py_round2 (Float x) = Inr x"
| "py_round2 Complex_number = Inl TypeError"

text \<open>\<^verbatim>\<open>int(x)\<close> on a float truncates towards zero; NaN and the infinities raise.\<close>

fun py_int :: "pyfloat \<Rightarrow> error + int" where
  "py_int (Fin r) = Inr (if 0 \<le> r then \<lfloor>r\<rfloor> else \<lceil>r\<rceil>)"
| "py_int NaN = Inl ValueError"
| "py_int _ = Inl OverflowError"

subsection \<open>Rounding to binary64\<close>

text \<open>
  Round to nearest, ties to even, on 53 significant bits: the unit in the last place of
  \<open>x\<close> is \<open>2 ^ (e - 52)\<close> for the exponent \<open>e\<close> of \<open>x\<close>, which is not taken below
  \<open>-1022\<close> (subnormal numbers); a result of magnitude \<open>2 ^ 1024\<close> or more overflows to
  an infinity.
\<close>

definition binade :: "real \<Rightarrow> int" where
  "binade x = max \<lfloor>log 2 \<bar>x\<bar>\<rfloor> (- 1022)"

definition ulp :: "real \<Rightarrow> real" where
  "ulp x = 2 powi (binade x - 52)"

definition round64 :: "real \<Rightarrow> pyfloat" where
  "round64 x =
     (if x = 0 then Fin 0
      else (let y = of_int (round_half_even (x / ulp x)) * ulp x
            in if 2 ^ 1024 \<le> \<bar>y\<bar> then inf_of_sign x else Fin y))"

text \<open>Float subtraction, addition, multiplication and division with their rounding.\<close>

definition fl_sub :: "pyfloat \<Rightarrow> pyfloat \<Rightarrow> pyfloat" where
  "fl_sub x y = (case pf_sub x y of Fin r \<Rightarrow> round64 r | s \<Rightarrow> s)"

definition fl_add :: "pyfloat \<Rightarrow> pyfloat \<Rightarrow> pyfloat" where
  "fl_add x y = (case pf_add x y of Fin r \<Rightarrow> round64 r | s \<Rightarrow> s)"

definition fl_mul :: "pyfloat \<Rightarrow> pyfloat \<Rightarrow> pyfloat" where
  "fl_mul x y = (case pf_mul x y of Fin r \<Rightarrow> round64 r | s \<Rightarrow> s)"

definition fl_div :: "pyfloat \<Rightarrow> pyfloat \<Rightarrow> error + pyfloat" where
  "fl_div x y = (case pf_div x y of Inr (Fin r) \<Rightarrow> Inr (round64 r) | res \<Rightarrow> res)"

subsection \<open>Strings\<close>

text \<open>
  Characters are code points below 256. \<^verbatim>\<open>str.strip()\<close> removes the white space of
  \<^verbatim>\<open>str.isspace\<close> at both ends; \<^verbatim>\<open>str.lower()\<close> maps the upper-case letters of that range.
\<close>

definition white_space :: "char list" where
  "white_space =
     [CHR 0x09, CHR 0x0A, CHR 0x0B, CHR 0x0C, CHR 0x0D, CHR 0x1C, CHR 0x1D, CHR 0x1E, CHR 0x1F,
      CHR 0x20, CHR 0x85, CHR 0xA0]"

definition is_space :: "char \<Rightarrow> bool" where
  "is_space c = (c \<in> set white_space)"

definition py_strip :: "string \<Rightarrow> string" where
  "py_strip s = rev (dropWhile is_space (rev (dropWhile is_space s)))"

definition lower_table :: "(char \<times> char) list" where
  "lower_table =
     [(CHR ''A'', CHR ''a''), (CHR ''B'', CHR ''b''), (CHR ''C'', CHR ''c''), (CHR ''D'', CHR ''d''),
      (CHR ''E'', CHR ''e''), (CHR ''F'', CHR ''f''), (CHR ''G'', CHR ''g''), (CHR ''H'', CHR ''h''),
      (CHR ''I'', CHR ''i''), (CHR ''J'', CHR ''j''), (CHR ''K'', CHR ''k''), (CHR ''L'', CHR ''l''),
      (CHR ''M'', CHR ''m''), (CHR ''N'', CHR ''n''), (CHR ''O'', CHR ''o''), (CHR ''P'', CHR ''p''),
      (CHR ''Q'', CHR ''q''), (CHR ''R'', CHR ''r''), (CHR ''S'', CHR ''s''), (CHR ''T'', CHR ''t''),
      (CHR ''U'', CHR ''u''), (CHR ''V'', CHR ''v''), (CHR ''W'', CHR ''w''), (CHR ''X'', CHR ''x''),
      (CHR ''Y'', CHR ''y''), (CHR ''Z'', CHR ''z''),
      (CHR 0xC0, CHR 0xE0), (CHR 0xC1, CHR 0xE1), (CHR 0xC2, CHR 0xE2), (CHR 0xC3, CHR 0xE3),
      (CHR 0xC4, CHR 0xE4), (CHR 0xC5, CHR 0xE5), (CHR 0xC6, CHR 0xE6), (CHR 0xC7, CHR 0xE7),
      (CHR 0xC8, CHR 0xE8), (CHR 0xC9, CHR 0xE9), (CHR 0xCA, CHR 0xEA), (CHR 0xCB, CHR 0xEB),
      (CHR 0xCC, CHR 0xEC), (CHR 0xCD, CHR 0xED), (CHR 0xCE, CHR 0xEE), (CHR 0xCF, CHR 0xEF),
      (CHR 0xD0, CHR 0xF0), (CHR 0xD1, CHR 0xF1), (CHR 0xD2, CHR 0xF2), (CHR 0xD3, CHR 0xF3),
      (CHR 0xD4, CHR 0xF4), (CHR 0xD5, CHR 0xF5), (CHR 0xD6, CHR 0xF6), (CHR 0xD8, CHR 0xF8),
      (CHR 0xD9, CHR 0xF9), (CHR 0xDA, CHR 0xFA), (CHR 0xDB, CHR 0xFB), (CHR 0xDC, CHR 0xFC),
      (CHR 0xDD, CHR 0xFD), (CHR 0xDE, CHR 0xFE)]"

definition lower_char :: "char \<Rightarrow> char" where
  "lower_char c = (case map_of lower_table c of Some l \<Rightarrow> l | None \<Rightarrow> c)"

definition py_lower :: "string \<Rightarrow> string" where
  "py_lower s = map lower_char s"

subsection \<open>The built-in \<^verbatim>\<open>float\<close> on a string\<close>

text \<open>
  \<^verbatim>\<open>float(s)\<close> strips white space and accepts an optional sign followed by \<^verbatim>\<open>inf\<close>,
  \<^verbatim>\<open>infinity\<close> or \<^verbatim>\<open>nan\<close> in any letter case, or by a decimal number with an optional
  exponent, where single underscores may separate digits. Anything else raises
  \<^verbatim>\<open>ValueError\<close>. The white space it strips is narrower than that of \<^verbatim>\<open>str.strip\<close>: the
  ASCII characters tab, line feed, vertical tab, form feed, carriage return and space, and
  the two white-space characters above 127; the separators \<^verbatim>\<open>0x1C\<close> to \<^verbatim>\<open>0x1F\<close> are not
  stripped. The number read is rounded to binary64, so a literal too large for a float
  gives an infinity.
\<close>

definition float_space :: "char list" where
  "float_space = [CHR 0x09, CHR 0x0A, CHR 0x0B, CHR 0x0C, CHR 0x0D, CHR 0x20, CHR 0x85, CHR 0xA0]"

definition float_strip :: "string \<Rightarrow> string" where
  "float_strip s =
     rev (dropWhile (\<lambda>c. c \<in> set float_space) (rev (dropWhile (\<lambda>c. c \<in> set float_space) s)))"

definition digit_value :: "char \<Rightarrow> nat option" where
  "digit_value c =
     (let n = (of_char c :: nat) in if 48 \<le> n \<and> n \<le> 57 then Some (n - 48) else None)"

fun more_digits :: "nat list \<Rightarrow> string \<Rightarrow> nat list \<times> string" where
  "more_digits acc [] = (acc, [])"
| "more_digits acc [c] =
     (case digit_value c of Some v \<Rightarrow> (acc @ [v], []) | None \<Rightarrow> (acc, [c]))"
| "more_digits acc (c # d # cs) =
     (case digit_value c of
        Some v \<Rightarrow> more_digits (acc @ [v]) (d # cs)
      | None \<Rightarrow>
          (if c = CHR ''_'' then
             (case digit_value d of
                Some w \<Rightarrow> more_digits (acc @ [w]) cs
              | None \<Rightarrow> (acc, c # d # cs))
           else (acc, c # d # cs)))"

definition digitpart :: "string \<Rightarrow> (nat list \<times> string) option" where
  "digitpart s =
     (case s of
        [] \<Rightarrow> None
      | c # cs \<Rightarrow> (case digit_value c of None \<Rightarrow> None | Some v \<Rightarrow> Some (more_digits [v] cs)))"

definition digits_nat :: "nat list \<Rightarrow> nat" where
  "digits_nat ds = foldl (\<lambda>a d. 10 * a + d) 0 ds"

text \<open>The mantissa: integer digits, fraction digits and what follows them.\<close>

definition number_part :: "string \<Rightarrow> (nat list \<times> nat list \<times> string) option" where
  "number_part s =
     (case digitpart s of
        Some (ip, r1) \<Rightarrow>
          (case r1 of
             [] \<Rightarrow> Some (ip, [], r1)
           | c # r2 \<Rightarrow>
               (if c = CHR ''.'' then
                  (case digitpart r2 of
                     Some (fp, r3) \<Rightarrow> Some (ip, fp, r3)
                   | None \<Rightarrow> Some (ip, [], r2))
                else Some (ip, [], r1)))
      | None \<Rightarrow>
          (case s of
             [] \<Rightarrow> None
           | c # r2 \<Rightarrow>
               (if c = CHR ''.'' then
                  (case digitpart r2 of
                     Some (fp, r3) \<Rightarrow> Some ([], fp, r3)
                   | None \<Rightarrow> None)
                else None)))"

text \<open>An optional sign: the factor and the rest.\<close>

definition sign_part :: "string \<Rightarrow> bool \<times> string" where
  "sign_part s =
     (case s of
        [] \<Rightarrow> (False, s)
      | c # cs \<Rightarrow> (if c = CHR ''-'' then (True, cs) else if c = CHR ''+'' then (False, cs)
                   else (False, s)))"

text \<open>The exponent after the mantissa, which must reach the end of the string.\<close>

definition exponent_part :: "string \<Rightarrow> int option" where
  "exponent_part s =
     (case s of
        [] \<Rightarrow> Some 0
      | c # cs \<Rightarrow>
          (if c = CHR ''e'' \<or> c = CHR ''E'' then
             (case sign_part cs of (neg, ds) \<Rightarrow>
                (case digitpart ds of
                   Some (e, []) \<Rightarrow> Some (if neg then - int (digits_nat e) else int (digits_nat e))
                 | _ \<Rightarrow> None))
           else None))"

definition float_of_string :: "string \<Rightarrow> pyfloat option" where
  "float_of_string s =
     (case sign_part (float_strip s) of (neg, t) \<Rightarrow>
        (if py_lower t = ''inf'' \<or> py_lower t = ''infinity''
         then Some (if neg then NInf else PInf)
         else if py_lower t = ''nan'' then Some NaN
         else (case number_part t of
                 None \<Rightarrow> None
               | Some (ip, fp, rest) \<Rightarrow>
                   (case exponent_part rest of
                      None \<Rightarrow> None
                    | Some e \<Rightarrow>
                        (let m = real (digits_nat ip) + real (digits_nat fp) / 10 ^ length fp;
                             v = (if 0 \<le> e then m * 10 ^ nat e else m / 10 ^ nat (- e))
                         in Some (round64 (if neg then - v else v)))))))"

subsection \<open>Cell values and the coercion \<^verbatim>\<open>safe\<close>\<close>

text \<open>
  A cell of the spreadsheet, as pandas hands it over: \<^verbatim>\<open>None\<close>, a float (NaN for an empty
  cell), an int, a bool, a string, or a date.
\<close>

datatype pyval = PNone | PFloat pyfloat | PInt int | PBool bool | PStr string | PDatetime

text \<open>\<^verbatim>\<open>pd.notna\<close>: false on \<^verbatim>\<open>None\<close> and on the float NaN.\<close>

fun notna :: "pyval \<Rightarrow> bool" where
  "notna PNone = False"
| "notna (PFloat NaN) = False"
| "notna _ = True"

text \<open>
  The built-in \<^verbatim>\<open>float\<close>. An int is rounded to binary64, and one too large for a float
  raises \<^verbatim>\<open>OverflowError\<close>.
\<close>

fun py_float :: "pyval \<Rightarrow> error + pyfloat" where
  "py_float (PFloat f) = Inr f"
| "py_float (PInt i) = (case round64 (of_int i) of Fin r \<Rightarrow> Inr (Fin r) | _ \<Rightarrow> Inl OverflowError)"
| "py_float (PBool b) = Inr (Fin (if b then 1 else 0))"
| "py_float (PStr s) = (case float_of_string s of Some f \<Rightarrow> Inr f | None \<Rightarrow> Inl ValueError)"
| "py_float PNone = Inl TypeError"
| "py_float PDatetime = Inl TypeError"

text \<open>
  \<^verbatim>\<open>def safe(val): return float(val) if pd.notna(val) else 0.0\<close>
\<close>

definition safe :: "pyval \<Rightarrow> error + pyfloat" where
  "safe val = (if notna val then py_float val else Inr (Fin 0))"

section \<open>The computations of \<^verbatim>\<open>update_dashboard\<close>\<close>

subsection \<open>The data frame and the click\<close>

text \<open>
  A row of the data frame maps column labels to cells; \<^verbatim>\<open>row.get(label, default)\<close> gives
  the default when the frame has no such column. The first column is named
  \<^verbatim>\<open>District\<close>.
\<close>

type_synonym row = "string \<rightharpoonup> pyval"

definition row_get :: "row \<Rightarrow> string \<Rightarrow> pyval \<Rightarrow> pyval" where
  "row_get r label dflt = (case r label of Some v \<Rightarrow> v | None \<Rightarrow> dflt)"

text \<open>
  \<^verbatim>\<open>df["District"].str.lower().str.strip()\<close>: the normalised name of a string cell; a cell
  that is not a string gives NaN, which equals no name.
\<close>

definition district_key :: "row \<Rightarrow> string option" where
  "district_key r =
     (case r ''District'' of Some (PStr s) \<Rightarrow> Some (py_strip (py_lower s)) | _ \<Rightarrow> None)"

text \<open>
  \<^verbatim>\<open>match_row = df[df["District"].str.lower().str.strip() == district_name.lower().strip()]\<close>
\<close>

definition match_row :: "row list \<Rightarrow> string \<Rightarrow> row list" where
  "match_row df district_name =
     filter (\<lambda>r. district_key r = Some (py_strip (py_lower district_name))) df"

text \<open>
  The click data of the map: \<^verbatim>\<open>None\<close> or an empty dict (\<open>Falsy\<close>), or a dict that may hold
  a list under \<^verbatim>\<open>"points"\<close>; a point may hold a district name under \<^verbatim>\<open>"location"\<close>.
\<close>

datatype clickData = Falsy | Dict "string option list option"

subsection \<open>Waste ratios\<close>

text \<open>
  \<^verbatim>\<open>processed_percent = (sw_proc / sw_gen * 100) if sw_gen > 0 else 0\<close>, then
  \<^verbatim>\<open>if processed_percent > 100: processed_percent = 100\<close>.
\<close>

definition processed_percent :: "pyfloat \<Rightarrow> pyfloat \<Rightarrow> error + pyfloat" where
  "processed_percent sw_gen sw_proc =
     bindE (if pf_greater sw_gen (Fin 0)
            then bindE (fl_div sw_proc sw_gen) (\<lambda>q. Inr (fl_mul q (Fin 100)))
            else Inr (Fin 0))
       (\<lambda>p. Inr (if pf_greater p (Fin 100) then Fin 100 else p))"

text \<open>
  \<^verbatim>\<open>proc_pie = min(sw_proc, sw_gen)\<close> and \<^verbatim>\<open>gap_pie = sw_gen - proc_pie\<close>, a float
  subtraction.
\<close>

definition proc_pie :: "pyfloat \<Rightarrow> pyfloat \<Rightarrow> pyfloat" where
  "proc_pie sw_gen sw_proc = py_min sw_proc sw_gen"

definition gap_pie :: "pyfloat \<Rightarrow> pyfloat \<Rightarrow> pyfloat" where
  "gap_pie sw_gen sw_proc = fl_sub sw_gen (proc_pie sw_gen sw_proc)"

subsection \<open>Population forecast\<close>

text \<open>
  \<^verbatim>\<open>CAGR = (pop_2025 / census_pop) ** (1 / (2025 - 2011)) - 1\<close> when
  \<^verbatim>\<open>census_pop > 0\<close>, else \<^verbatim>\<open>0\<close>.
\<close>

definition CAGR :: "pyfloat \<Rightarrow> pyfloat \<Rightarrow> error + pynum" where
  "CAGR census_pop pop_2025 =
     (if pf_greater census_pop (Fin 0)
      then bindE (pf_div pop_2025 census_pop) (\<lambda>q.
           bindE (pf_pow q (1 / (2025 - 2011))) (\<lambda>p.
           Inr (num_sub p (Float (Fin 1)))))
      else Inr (Float (Fin 0)))"

text \<open>\<^verbatim>\<open>years = list(range(2025, 2031))\<close>\<close>

definition years :: "int list" where
  "years = map int [2025 ..< 2031]"

text \<open>
  \<^verbatim>\<open>pop_forecast_values = [pop_2025 * ((1 + CAGR) ** (year - 2025)) for year in years]\<close>
\<close>

definition pop_forecast_values :: "pyfloat \<Rightarrow> pyfloat \<Rightarrow> error + pynum list" where
  "pop_forecast_values census_pop pop_2025 =
     bindE (CAGR census_pop pop_2025) (\<lambda>cagr.
       Inr (map (\<lambda>year. num_mul (Float pop_2025)
                           (num_pow_nat (num_add (Float (Fin 1)) cagr) (nat (year - 2025))))
              years))"

subsection \<open>The vehicle optimisation model\<close>

text \<open>
  The callback builds one PuLP problem: three integer variables with lower bound 0, the
  objective \<^verbatim>\<open>2354 x + 1926 y + 913 z\<close> to minimise and the single constraint
  \<^verbatim>\<open>20 x + 3.8 y + 0.5 z >= W\<close>. Assembling and solving it is the work of the PuLP
  library and its solver, which are not part of the repository: the solver is a parameter
  of the model, giving for a problem either an exception or what \<^verbatim>\<open>pl.value\<close> then reads
  for each variable (\<^verbatim>\<open>None\<close> or a float).
\<close>

record lp_problem =
  objective :: "real \<times> real \<times> real"
  capacity :: "real \<times> real \<times> real"
  required :: pyfloat

definition vehicle_problem :: "pyfloat \<Rightarrow> lp_problem" where
  "vehicle_problem W =
     \<lparr>objective = (2354, 1926, 913), capacity = (20, 3.8, 0.5), required = W\<rparr>"

type_synonym solver = "lp_problem \<Rightarrow> error + (pyfloat option \<times> pyfloat option \<times> pyfloat option)"

text \<open>\<^verbatim>\<open>int(pl.value(x))\<close>: \<^verbatim>\<open>int(None)\<close> raises \<^verbatim>\<open>TypeError\<close>.\<close>

definition int_value :: "pyfloat option \<Rightarrow> error + int" where
  "int_value v = (case v of None \<Rightarrow> Inl TypeError | Some f \<Rightarrow> py_int f)"

text \<open>
  What the problem means: a plan is a count per variable, feasible when its capacity
  covers the requirement, optimal when no feasible plan costs less.
\<close>

type_synonym plan = "nat \<times> nat \<times> nat"

definition dot :: "real \<times> real \<times> real \<Rightarrow> plan \<Rightarrow> real" where
  "dot c p = (case c of (c1, c2, c3) \<Rightarrow> (case p of (x, y, z) \<Rightarrow>
                c1 * real x + c2 * real y + c3 * real z))"

definition feasible :: "lp_problem \<Rightarrow> plan \<Rightarrow> bool" where
  "feasible prob p = pf_ge (Fin (dot (capacity prob) p)) (required prob)"

definition optimal :: "lp_problem \<Rightarrow> plan \<Rightarrow> bool" where
  "optimal prob p =
     (feasible prob p \<and> (\<forall>q. feasible prob q \<longrightarrow> dot (objective prob) p \<le> dot (objective prob) q))"

subsection \<open>The page components\<close>

text \<open>
  The callback returns four components. Their styling is constant; what varies is kept
  here: the numbers are stored as the values handed to the formatting, so \<open>census_card\<close>
  is the int printed with thousands separators, \<open>waste_kpi_card_1\<close> the percentage
  printed with one decimal, and each waste figure the float printed with two decimals.
\<close>

record pop_section =
  census_card :: int
  pop_forecast_fig :: "(int \<times> pyfloat) list"
  population_kpi_cards :: "(int \<times> int) list"

record waste_char_section =
  waste_kpi_card_1 :: pyfloat
  bar_fig :: "(string \<times> pyfloat \<times> pyfloat) list"
  pie_fig :: "(string \<times> pyfloat) list"
  vehicle_cards :: "int \<times> int \<times> int"

datatype component =
    Message string
  | District_card string
  | Pop_section pop_section
  | Waste_char_section waste_char_section
  | Waste_comp_section "(string \<times> pyfloat \<times> string \<times> string) list"

type_synonym outputs = "component \<times> component \<times> component \<times> component"

definition placeholder :: component where
  "placeholder = Message ''Click a district on the map''"

definition no_data :: component where
  "no_data = Message ''No data for selected district''"

subsection \<open>The report of one row\<close>

text \<open>
  The part of the callback after the row is selected, in the order of the source, so the
  first operation that raises decides the exception. The source reads the three solid-waste
  cells a second time before the charts; that gives the same three values again.
\<close>

definition report :: "solver \<Rightarrow> string \<Rightarrow> row \<Rightarrow> error + outputs" where
  "report solve district_name r =
     bindE (safe (row_get r ''Sum of Census 2011 Population'' (PInt 0))) (\<lambda>census_pop.
     bindE (safe (row_get r ''Sum of SW_Generation (TPD)'' (PInt 0))) (\<lambda>sw_gen.
     bindE (safe (row_get r ''Sum of SW_Processed_ (TPD)'' (PInt 0))) (\<lambda>sw_proc.
     bindE (safe (row_get r ''Sum of SW Collection Gap (in TPD)'' (PInt 0))) (\<lambda>sw_gap.
     bindE (processed_percent sw_gen sw_proc) (\<lambda>percent.
     bindE (safe (row_get r ''Sum of Sewage Generation (in MLD)'' (PInt 0))) (\<lambda>sewage_gen.
     bindE (safe (row_get r ''Average of Decadal Grouth Rate in % (During 2001-2011)'' PNone))
       (\<lambda>growth_rate.
     bindE (py_int census_pop) (\<lambda>census_int.
     bindE (safe (row_get r ''Sum of Projected Population by 2025'' (PInt 0))) (\<lambda>pop_2025.
     bindE (pop_forecast_values census_pop pop_2025) (\<lambda>vals.
     bindE (mapE py_round2 vals) (\<lambda>chart_y.
     bindE (mapE py_round vals) (\<lambda>kpi.
     bindE (py_round2 (Float sw_gen)) (\<lambda>gen_y.
     bindE (py_round2 (Float sw_proc)) (\<lambda>proc_y.
     bindE (py_round2 (Float sw_gap)) (\<lambda>gap_y.
     bindE (solve (vehicle_problem sw_gen)) (\<lambda>(x, y, z).
     bindE (int_value x) (\<lambda>bulk_opt.
     bindE (int_value y) (\<lambda>lcv_opt.
     bindE (int_value z) (\<lambda>tri_opt.
     bindE (safe (row_get r ''Sum of Estimated PW Generation in TPD'' (PInt 0))) (\<lambda>pw.
     bindE (safe (row_get r ''Sum of C&D Waste Generation in TPD - 2025'' (PInt 0))) (\<lambda>cd.
     bindE (safe (row_get r ''Sum of e-waste Generation (TPA)'' (PInt 0))) (\<lambda>ew_tpa.
     bindE (pf_div ew_tpa (Fin 365)) (\<lambda>ew.
     Inr (District_card district_name,
          Pop_section
            \<lparr>census_card = census_int,
             pop_forecast_fig = zip years chart_y,
             population_kpi_cards = zip years kpi\<rparr>,
          Waste_char_section
            \<lparr>waste_kpi_card_1 = percent,
             bar_fig = [(''Generated'', sw_gen, gen_y), (''Processed'', sw_proc, proc_y),
                        (''Gap'', sw_gap, gap_y)],
             pie_fig = [(''Processed'', proc_pie sw_gen sw_proc),
                        (''Gap'', gap_pie sw_gen sw_proc)],
             vehicle_cards = (bulk_opt, lcv_opt, tri_opt)\<rparr>,
          Waste_comp_section
            [(''Total Solid Waste Generated'', sw_gen, ''TPD'', ''blue''),
             (''Plastic Waste'', pw, ''TPD'', ''green''),
             (''C&D Waste'', cd, ''TPD'', ''orange''),
             (''E-waste'', ew, ''TPD'', ''red''),
             (''Sewage Waste'', sewage_gen, ''MLD'', ''brown'')])
     )))))))))))))))))))))))"

subsection \<open>The callback\<close>

definition update_dashboard :: "solver \<Rightarrow> row list \<Rightarrow> clickData \<Rightarrow> error + outputs" where
  "update_dashboard solve df click =
     (case click of
        Falsy \<Rightarrow> Inr (placeholder, placeholder, placeholder, placeholder)
      | Dict None \<Rightarrow> Inr (placeholder, placeholder, placeholder, placeholder)
      | Dict (Some points) \<Rightarrow>
          (case points of
             [] \<Rightarrow> Inl IndexError
           | point # _ \<Rightarrow>
               (case point of
                  None \<Rightarrow> Inl KeyError
                | Some district_name \<Rightarrow>
                    (case match_row df district_name of
                       [] \<Rightarrow> Inr (no_data, no_data, no_data, no_data)
                     | r # _ \<Rightarrow> report solve district_name r))))"

subsection \<open>The values read from a row\<close>

text \<open>
  The callback reads ten cells of the row through \<^verbatim>\<open>safe\<close> into local variables, in this
  order; the e-waste figure is divided by 365 where it is read.
\<close>

record attributes =
  attr_census_pop :: pyfloat
  attr_sw_gen :: pyfloat
  attr_sw_proc :: pyfloat
  attr_sw_gap :: pyfloat
  attr_sewage_gen :: pyfloat
  attr_growth_rate :: pyfloat
  attr_pop_2025 :: pyfloat
  attr_pw :: pyfloat
  attr_cd :: pyfloat
  attr_ew :: pyfloat

definition resolve :: "row \<Rightarrow> error + attributes" where
  "resolve r =
     bindE (safe (row_get r ''Sum of Census 2011 Population'' (PInt 0))) (\<lambda>census_pop.
     bindE (safe (row_get r ''Sum of SW_Generation (TPD)'' (PInt 0))) (\<lambda>sw_gen.
     bindE (safe (row_get r ''Sum of SW_Processed_ (TPD)'' (PInt 0))) (\<lambda>sw_proc.
     bindE (safe (row_get r ''Sum of SW Collection Gap (in TPD)'' (PInt 0))) (\<lambda>sw_gap.
     bindE (safe (row_get r ''Sum of Sewage Generation (in MLD)'' (PInt 0))) (\<lambda>sewage_gen.
     bindE (safe (row_get r ''Average of Decadal Grouth Rate in % (During 2001-2011)'' PNone))
       (\<lambda>growth_rate.
     bindE (safe (row_get r ''Sum of Projected Population by 2025'' (PInt 0))) (\<lambda>pop_2025.
     bindE (safe (row_get r ''Sum of Estimated PW Generation in TPD'' (PInt 0))) (\<lambda>pw.
     bindE (safe (row_get r ''Sum of C&D Waste Generation in TPD - 2025'' (PInt 0))) (\<lambda>cd.
     bindE (safe (row_get r ''Sum of e-waste Generation (TPA)'' (PInt 0))) (\<lambda>ew_tpa.
     bindE (pf_div ew_tpa (Fin 365)) (\<lambda>ew.
     Inr \<lparr>attr_census_pop = census_pop, attr_sw_gen = sw_gen, attr_sw_proc = sw_proc,
          attr_sw_gap = sw_gap, attr_sewage_gen = sewage_gen, attr_growth_rate = growth_rate,
          attr_pop_2025 = pop_2025, attr_pw = pw, attr_cd = cd, attr_ew = ew\<rparr>)))))))))))"

definition numeric_columns :: "string list" where
  "numeric_columns =
     [''Sum of Census 2011 Population'', ''Sum of SW_Generation (TPD)'',
      ''Sum of SW_Processed_ (TPD)'', ''Sum of SW Collection Gap (in TPD)'',
      ''Sum of Sewage Generation (in MLD)'',
      ''Average of Decadal Grouth Rate in % (During 2001-2011)'',
      ''Sum of Projected Population by 2025'', ''Sum of Estimated PW Generation in TPD'',
      ''Sum of C&D Waste Generation in TPD - 2025'', ''Sum of e-waste Generation (TPA)'']"

text \<open>
  Which column and which default each of the first nine values is read with; the tenth,
  \<open>attr_ew\<close>, is read from \<^verbatim>\<open>Sum of e-waste Generation (TPA)\<close> and divided by 365.
\<close>

definition field_table :: "(string \<times> pyval \<times> (attributes \<Rightarrow> pyfloat)) list" where
  "field_table =
     [(''Sum of Census 2011 Population'', PInt 0, attr_census_pop),
      (''Sum of SW_Generation (TPD)'', PInt 0, attr_sw_gen),
      (''Sum of SW_Processed_ (TPD)'', PInt 0, attr_sw_proc),
      (''Sum of SW Collection Gap (in TPD)'', PInt 0, attr_sw_gap),
      (''Sum of Sewage Generation (in MLD)'', PInt 0, attr_sewage_gen),
      (''Average of Decadal Grouth Rate in % (During 2001-2011)'', PNone, attr_growth_rate),
      (''Sum of Projected Population by 2025'', PInt 0, attr_pop_2025),
      (''Sum of Estimated PW Generation in TPD'', PInt 0, attr_pw),
      (''Sum of C&D Waste Generation in TPD - 2025'', PInt 0, attr_cd)]"

text \<open>
  A cell that is empty or holds a number that is not negative (for an int: one that
  \<^verbatim>\<open>float\<close> accepts).
\<close>

fun empty_or_nonneg :: "pyval \<Rightarrow> bool" where
  "empty_or_nonneg PNone = True"
| "empty_or_nonneg (PFloat f) = (f = NaN \<or> pf_ge f (Fin 0))"
| "empty_or_nonneg (PInt i) = (0 \<le> i \<and> py_float (PInt i) \<noteq> Inl OverflowError)"
| "empty_or_nonneg (PBool b) = True"
| "empty_or_nonneg (PStr s) = False"
| "empty_or_nonneg PDatetime = False"

section \<open>The fleet sizing optimizer of the specification\<close>



text \<open>Modelled from the spec: the sum of per-type figure times count.\<close>

definition dot_product :: "real list \<Rightarrow> nat list \<Rightarrow> real" where
  "dot_product cs ns = sum_list (map2 (\<lambda>c n. c * real n) cs ns)"


text \<open>
  Modelled from the spec: the tie-break of the search. The earlier candidate is kept unless
  the later one is strictly cheaper.
\<close>

fun better :: "(nat list \<times> real) option \<Rightarrow> (nat list \<times> real) option \<Rightarrow> (nat list \<times> real) option" where
  "better None b = b"
| "better a None = a"
| "better (Some (ns, c)) (Some (ms, d)) = (if d < c then Some (ms, d) else Some (ns, c))"





section \<open>Example inputs\<close>

text \<open>
  Concrete inputs on which the properties below are exercised: a click on one district,
  three stand-ins for the solver (one answering zero vehicles, one answering two bulk
  trucks, one raising), a solver that answers only when asked for one given requirement,
  and two rows.
\<close>

definition click_on :: "string \<Rightarrow> clickData" where
  "click_on name = Dict (Some [Some name])"

definition zero_solver :: solver where
  "zero_solver prob = Inr (Some (Fin 0), Some (Fin 0), Some (Fin 0))"

definition failing_solver :: solver where
  "failing_solver prob = Inl PulpSolverError"

definition two_trucks_solver :: solver where
  "two_trucks_solver prob = Inr (Some (Fin 2), Some (Fin 0), Some (Fin 0))"

definition probe_solver :: "pyfloat \<Rightarrow> solver" where
  "probe_solver W prob = (if required prob = W then two_trucks_solver prob else Inl PulpSolverError)"

definition bhopal :: row where
  "bhopal =
     [''District'' \<mapsto> PStr ''Bhopal'',
      ''Sum of SW_Generation (TPD)'' \<mapsto> PFloat (Fin 40),
      ''Sum of SW_Processed_ (TPD)'' \<mapsto> PFloat (Fin 10),
      ''Sum of SW Collection Gap (in TPD)'' \<mapsto> PFloat (Fin 30)]"

definition idle :: row where
  "idle = [''District'' \<mapsto> PStr ''Bhopal'', ''Sum of SW_Generation (TPD)'' \<mapsto> PFloat (Fin 0)]"

definition all_zero :: attributes where
  "all_zero = \<lparr>attr_census_pop = Fin 0, attr_sw_gen = Fin 0, attr_sw_proc = Fin 0,
      attr_sw_gap = Fin 0, attr_sewage_gen = Fin 0, attr_growth_rate = Fin 0,
      attr_pop_2025 = Fin 0, attr_pw = Fin 0, attr_cd = Fin 0, attr_ew = Fin 0\<rparr>"

section \<open>Properties\<close>

lemmas float_parse_defs =
  float_of_string_def float_strip_def float_space_def sign_part_def py_lower_def lower_char_def
  lower_table_def number_part_def exponent_part_def digitpart_def digit_value_def digits_nat_def

lemma years_list: "years = [2025, 2026, 2027, 2028, 2029, 2030]"
  unfolding years_def by (simp add: upt_rec)

lemma bindE_Inr [simp]: "bindE (Inr v) f = f v"
  by (simp add: bindE_def)

lemma bindE_Inl [simp]: "bindE (Inl e) f = Inl e"
  by (simp add: bindE_def)

lemma bindE_eq_Inr: "bindE m f = Inr y \<longleftrightarrow> (\<exists>v. m = Inr v \<and> f v = Inr y)"
  by (cases m) simp_all

lemmas name_defs =
  district_key_def py_strip_def py_lower_def lower_char_def lower_table_def is_space_def
  white_space_def

lemma round_half_even_int [simp]: "round_half_even (of_int n) = n"
  by (simp add: round_half_even_def)

lemma round_half_even_0 [simp]: "round_half_even 0 = 0"
  using round_half_even_int [of 0] by simp

lemma round_half_even_numeral [simp]: "round_half_even (numeral n) = numeral n"
  using round_half_even_int [of "numeral n"] by simp

lemma round_half_even_neg_numeral [simp]: "round_half_even (- numeral n) = - numeral n"
  using round_half_even_int [of "- numeral n"] by simp

lemma round_half_even_nonneg: "0 \<le> r \<Longrightarrow> 0 \<le> round_half_even r"
  by (auto simp: round_half_even_def Let_def)

lemma round_half_even_close: "\<bar>of_int (round_half_even r) - r\<bar> \<le> 1 / 2"
  unfolding round_half_even_def Let_def by (auto simp: abs_if) linarith+

lemma ulp_pos [simp]: "0 < ulp x"
  by (simp add: ulp_def)

lemma ulp_nonneg [simp]: "0 \<le> ulp x"
  using ulp_pos [of x] by (rule less_imp_le)

lemma floor_log2_eq:
  assumes "x \<noteq> 0" and "2 powi e \<le> \<bar>x\<bar>" and "\<bar>x\<bar> < 2 powi (e + 1)"
  shows "\<lfloor>log 2 \<bar>x\<bar>\<rfloor> = e"
proof -
  have a: "(2::real) powr real_of_int k = 2 powi k" for k
    by (rule powr_real_of_int') simp_all
  have "0 < \<bar>x\<bar>" using assms(1) by simp
  then have "\<lfloor>log 2 \<bar>x\<bar>\<rfloor> = e \<longleftrightarrow> 2 powr real_of_int e \<le> \<bar>x\<bar> \<and> \<bar>x\<bar> < 2 powr real_of_int (e + 1)"
    using floor_log_eq_powr_iff [of "\<bar>x\<bar>" 2 e] by simp
  with assms(2,3) show ?thesis unfolding a by blast
qed

lemma round64_eval:
  assumes "x \<noteq> 0" and "2 powi e \<le> \<bar>x\<bar>" and "\<bar>x\<bar> < 2 powi (e + 1)" and "- 1022 \<le> e"
  shows "round64 x =
     (let y = of_int (round_half_even (x / 2 powi (e - 52))) * 2 powi (e - 52)
      in if 2 ^ 1024 \<le> \<bar>y\<bar> then inf_of_sign x else Fin y)"
  using assms(1,4) floor_log2_eq [OF assms(1-3)]
  by (simp add: round64_def ulp_def binade_def max_def)

lemma round64_0 [simp]: "round64 0 = Fin 0"
  by (simp add: round64_def)

lemma round64_nonneg: "0 \<le> x \<Longrightarrow> pf_ge (round64 x) (Fin 0)"
proof -
  assume x: "0 \<le> x"
  have "0 \<le> x / ulp x" using x by simp
  then have "0 \<le> real_of_int (round_half_even (x / ulp x)) * ulp x"
    using round_half_even_nonneg [of "x / ulp x"] by simp
  with x show ?thesis
    by (simp add: round64_def Let_def inf_of_sign_def)
qed

lemma round64_close:
  assumes "round64 x = Fin y"
  shows "\<bar>y - x\<bar> \<le> ulp x / 2"
proof (cases "x = 0")
  case True
  with assms show ?thesis by simp
next
  case False
  with assms have y: "y = of_int (round_half_even (x / ulp x)) * ulp x"
    by (simp add: round64_def Let_def inf_of_sign_def split: if_splits)
  have "ulp x \<noteq> 0" by (simp add: ulp_def)
  then have "y - x = (of_int (round_half_even (x / ulp x)) - x / ulp x) * ulp x"
    by (simp add: y field_simps)
  then have "\<bar>y - x\<bar> = \<bar>of_int (round_half_even (x / ulp x)) - x / ulp x\<bar> * ulp x"
    by (simp add: abs_mult)
  also have "\<dots> \<le> 1 / 2 * ulp x"
    by (intro mult_right_mono round_half_even_close) simp
  finally show ?thesis by simp
qed

lemma round64_int:
  assumes "\<bar>n\<bar> < 2 ^ 53"
  shows "round64 (of_int n) = Fin (of_int n)"
proof (cases "n = 0")
  case True
  then show ?thesis by simp
next
  case False
  define x where "x = real_of_int n"
  define e where "e = \<lfloor>log 2 \<bar>x\<bar>\<rfloor>"
  define k where "k = nat (52 - e)"
  have x1: "1 \<le> \<bar>x\<bar>" using False by (simp add: x_def flip: of_int_abs)
  have "real_of_int \<bar>n\<bar> < 2 ^ 53" using assms by (simp flip: of_int_less_iff)
  then have x53: "\<bar>x\<bar> < 2 ^ 53" by (simp add: x_def)
  have "0 \<le> log 2 \<bar>x\<bar>" using x1 by simp
  then have e0: "0 \<le> e" by (simp add: e_def)
  have "log 2 \<bar>x\<bar> < 53"
    using x1 x53 by (subst log_less_iff) simp_all
  then have e52: "e \<le> 52" unfolding e_def by linarith
  have b: "binade x = e" using e0 by (simp add: binade_def e_def)
  have "e - 52 = - int k" using e52 by (simp add: k_def)
  then have u: "ulp x = 1 / 2 ^ k"
    by (simp add: ulp_def b power_int_minus_divide)
  have q: "x / ulp x = of_int (n * 2 ^ k)" unfolding u by (simp add: x_def)
  have y: "of_int (round_half_even (x / ulp x)) * ulp x = x"
    unfolding q round_half_even_int unfolding u by (simp add: x_def)
  have "\<bar>x\<bar> < 2 ^ 1024"
    using x53 by (rule less_trans) simp
  moreover have "x \<noteq> 0" using False by (simp add: x_def)
  ultimately have "round64 x = Fin x"
    unfolding round64_def Let_def y by simp
  then show ?thesis by (simp add: x_def)
qed

lemma percent_zero: "processed_percent (Fin 0) s = Inr (Fin 0)"
  by (simp add: processed_percent_def pf_greater_def)

lemma percent_bhopal: "processed_percent (Fin 40) (Fin 10) = Inr (Fin 25)"
proof -
  have a: "round64 (1 / 4) = Fin (1 / 4)"
    by (subst round64_eval [where e = "- 2"]) (simp_all add: power_int_minus)
  have "round64 (real_of_int 25) = Fin (real_of_int 25)" by (rule round64_int) simp
  then have b: "round64 25 = Fin 25" by simp
  show ?thesis
    by (simp add: processed_percent_def pf_greater_def fl_div_def fl_mul_def a b)
qed

lemmas report_eval =
  report_def row_get_def safe_def percent_zero percent_bhopal pf_greater_def
  pop_forecast_values_def CAGR_def years_list pf_pow_nat_def int_value_def pf_sub_def

subsection \<open>The coercion\<close>

text \<open>
  C3, as the spec states it: \<^verbatim>\<open>safe\<close> gives 0.0 for every value that is missing or not
  numeric and never raises. It does raise: a cell holding text that is not a float literal
  is not NA, so \<^verbatim>\<open>float\<close> is applied to it.
\<close>

theorem safe_raises_counterexample:
  "safe (PStr ''not available'') = Inl ValueError \<and> safe (PStr ''not available'') \<noteq> Inr (Fin 0)"
  by (simp add: safe_def float_parse_defs)

text \<open>
  C3, amended: \<^verbatim>\<open>safe\<close> gives 0.0 for \<^verbatim>\<open>None\<close> and NaN and \<^verbatim>\<open>float(value)\<close> for every
  other value: a float that is not NaN comes back as it is, an int comes back rounded to
  binary64 (unchanged below \<open>2 ^ 53\<close>). It raises exactly on a string that is not a float
  literal (\<^verbatim>\<open>ValueError\<close>), on a date (\<^verbatim>\<open>TypeError\<close>) and on an int too large for a
  float (\<^verbatim>\<open>OverflowError\<close>).
\<close>

theorem safe_coercion:
  "(\<not> notna v \<longrightarrow> safe v = Inr (Fin 0))
   \<and> (notna v \<longrightarrow> safe v = py_float v)
   \<and> safe PNone = Inr (Fin 0)
   \<and> safe (PFloat NaN) = Inr (Fin 0)
   \<and> (f \<noteq> NaN \<longrightarrow> safe (PFloat f) = Inr f)
   \<and> safe (PInt i) = (case round64 (of_int i) of Fin r \<Rightarrow> Inr (Fin r) | _ \<Rightarrow> Inl OverflowError)
   \<and> (\<bar>i\<bar> < 2 ^ 53 \<longrightarrow> safe (PInt i) = Inr (Fin (of_int i)))
   \<and> (safe v = Inl ValueError \<longleftrightarrow> (\<exists>s. v = PStr s \<and> float_of_string s = None))
   \<and> (safe v = Inl TypeError \<longleftrightarrow> v = PDatetime)
   \<and> (safe v = Inl OverflowError \<longleftrightarrow> (\<exists>n. v = PInt n \<and> (\<forall>r. round64 (of_int n) \<noteq> Fin r)))
   \<and> ((\<exists>e. safe v = Inl e) \<longleftrightarrow>
        safe v = Inl ValueError \<or> safe v = Inl TypeError \<or> safe v = Inl OverflowError)"
proof -
  have fl: "f \<noteq> NaN \<longrightarrow> safe (PFloat f) = Inr f"
    by (cases f) (simp_all add: safe_def)
  have small: "\<bar>i\<bar> < 2 ^ 53 \<longrightarrow> safe (PInt i) = Inr (Fin (of_int i))"
    by (simp add: safe_def round64_int)
  have raise: "(safe v = Inl ValueError \<longleftrightarrow> (\<exists>s. v = PStr s \<and> float_of_string s = None))
      \<and> (safe v = Inl TypeError \<longleftrightarrow> v = PDatetime)
      \<and> (safe v = Inl OverflowError \<longleftrightarrow> (\<exists>n. v = PInt n \<and> (\<forall>r. round64 (of_int n) \<noteq> Fin r)))
      \<and> ((\<exists>e. safe v = Inl e) \<longleftrightarrow>
           safe v = Inl ValueError \<or> safe v = Inl TypeError \<or> safe v = Inl OverflowError)"
  proof (cases v)
    case (PFloat x)
    then show ?thesis by (cases x) (simp_all add: safe_def)
  next
    case (PInt n)
    then show ?thesis by (cases "round64 (of_int n)") (simp_all add: safe_def)
  qed (auto simp: safe_def split: option.splits)
  from fl small raise show ?thesis by (simp add: safe_def)
qed

theorem safe_coercion_witness:
  "safe (PFloat (Fin 12.5)) = Inr (Fin 12.5) \<and> safe (PFloat NaN) = Inr (Fin 0)
   \<and> safe (PInt 7) = Inr (Fin 7)
   \<and> safe (PStr ''12.5'') = Inr (Fin 12.5) \<and> safe (PStr ''-'') = Inl ValueError
   \<and> safe (PStr [CHR 0x1C, CHR ''2'', CHR 0x1F]) = Inl ValueError
   \<and> safe (PInt (2 ^ 1024)) = Inl OverflowError"
proof -
  have r1: "round64 (25 / 2) = Fin (25 / 2)"
    by (subst round64_eval [where e = 3]) (simp_all add: power_int_minus)
  have r2: "round64 (2 ^ 1024) = PInf"
    by (subst round64_eval [where e = 1024]) (simp_all add: power_int_minus inf_of_sign_def)
  have a: "float_of_string ''-'' = None" by (simp add: float_parse_defs)
  have b: "py_float (PStr ''12.5'') = Inr (Fin 12.5)" by (simp add: float_parse_defs r1)
  have c: "float_of_string [CHR 0x1C, CHR ''2'', CHR 0x1F] = None" by (simp add: float_parse_defs)
  have d: "\<forall>r. round64 (real_of_int (2 ^ 1024)) \<noteq> Fin r" using r2 by simp
  have "round64 (real_of_int 7) = Fin (real_of_int 7)" by (rule round64_int) simp
  then have r7: "round64 7 = Fin 7" by simp
  have w1: "safe (PFloat (Fin 12.5)) = Inr (Fin 12.5) \<and> safe (PFloat NaN) = Inr (Fin 0)
      \<and> safe (PInt 7) = Inr (Fin 7)"
    using safe_coercion [of PNone "Fin 12.5" 7] r7 by simp
  have w2: "safe (PStr ''12.5'') = Inr (Fin 12.5)"
    using safe_coercion [of "PStr ''12.5''" NaN 0] b by simp
  have w3: "safe (PStr ''-'') = Inl ValueError"
    using safe_coercion [of "PStr ''-''" NaN 0] a by simp
  have w4: "safe (PStr [CHR 0x1C, CHR ''2'', CHR 0x1F]) = Inl ValueError"
    using safe_coercion [of "PStr [CHR 0x1C, CHR ''2'', CHR 0x1F]" NaN 0] c by simp
  have w5: "safe (PInt (2 ^ 1024)) = Inl OverflowError"
    using safe_coercion [of "PInt (2 ^ 1024)" NaN 0] d by blast
  from w1 w2 w3 w4 w5 show ?thesis by simp
qed

subsection \<open>The forecast\<close>

lemma pf_pow_nat_Fin: "pf_pow_nat (Fin r) n = Fin (r ^ n)"
  by (simp add: pf_pow_nat_def)

lemma CAGR_finite:
  "CAGR (Fin C) (Fin P) =
     Inr (if 0 < C then (if 0 \<le> P then Float (Fin ((P / C) powr (1 / 14) - 1)) else Complex_number)
          else Float (Fin 0))"
proof -
  have nonint: "real_of_int \<lfloor>1 / 14 :: real\<rfloor> \<noteq> 1 / 14" by simp
  show ?thesis
    by (auto simp: CAGR_def pf_greater_def bindE_def pf_pow_def pf_sub_def nonint
          zero_less_divide_iff divide_less_0_iff not_le)
qed

text \<open>
  C5: for a census figure \<open>C\<close> and a projection \<open>P\<close>, the growth rate is
  \<open>(P / C) ^ (1 / 14) - 1\<close> when \<open>C > 0\<close> and 0 otherwise, the value of year \<open>Y\<close> of
  2025 to 2030 is \<open>P * (1 + cagr) ^ (Y - 2025)\<close>, and the value of 2025 is \<open>P\<close>. With
  \<open>C > 0\<close> and \<open>P < 0\<close> the root of the negative quotient is a Python complex number, and
  so are the six values; the model records that and no value for them.
\<close>

theorem forecast_formula:
  "CAGR (Fin C) (Fin P) =
     Inr (if 0 < C then (if 0 \<le> P then Float (Fin ((P / C) powr (1 / 14) - 1)) else Complex_number)
          else Float (Fin 0))
   \<and> pop_forecast_values (Fin C) (Fin P) =
     Inr (map (\<lambda>year.
            if 0 < C \<and> P < 0 then Complex_number
            else Float (Fin (P * (1 + (if 0 < C then (P / C) powr (1 / 14) - 1 else 0))
                                   ^ nat (year - 2025))))
          [2025, 2026, 2027, 2028, 2029, 2030])
   \<and> (\<forall>vs. pop_forecast_values (Fin C) (Fin P) = Inr vs \<and> \<not> (0 < C \<and> P < 0)
         \<longrightarrow> vs \<noteq> [] \<and> hd vs = Float (Fin P))"
proof -
  have vals: "pop_forecast_values (Fin C) (Fin P) =
     Inr (map (\<lambda>year.
            if 0 < C \<and> P < 0 then Complex_number
            else Float (Fin (P * (1 + (if 0 < C then (P / C) powr (1 / 14) - 1 else 0))
                                   ^ nat (year - 2025))))
          [2025, 2026, 2027, 2028, 2029, 2030])"
    by (simp add: pop_forecast_values_def CAGR_finite bindE_def years_list pf_pow_nat_Fin not_le)
  show ?thesis
    unfolding vals using CAGR_finite [of C P] by simp
qed

theorem forecast_formula_witness:
  "CAGR (Fin 100) (Fin 100) = Inr (Float (Fin 0))
   \<and> pop_forecast_values (Fin 100) (Fin 100) = Inr (replicate 6 (Float (Fin 100)))"
  using forecast_formula [of 100 100] by (simp add: eval_nat_numeral)

text \<open>
  C6: when the census population is 0 the six forecast values all equal the projected 2025
  population, whatever float that is, and nothing raises.
\<close>

theorem census_zero_flat:
  "pop_forecast_values (Fin 0) p = Inr (map (\<lambda>year. Float p) years)
   \<and> pop_forecast_values (Fin 0) p = Inr (replicate 6 (Float p))"
proof -
  have m: "pf_mul p (Fin 1) = p" by (cases p) (simp_all add: inf_of_sign_def)
  have pw: "pf_pow_nat (Fin 1) n = Fin 1" for n by (simp add: pf_pow_nat_def)
  show ?thesis
    by (simp add: pop_forecast_values_def CAGR_def pf_greater_def bindE_def years_list m pw
        eval_nat_numeral)
qed

subsection \<open>The waste ratios\<close>

text \<open>
  C7, as the spec states it: the two pie quantities sum exactly to the generated figure.
  The gap is a float subtraction, and it rounds: with the floats nearest to 0.9 generated
  and 0.2 processed, the gap is the float just below 0.7, and processed plus gap, as real
  numbers and as a float sum alike, is the float just below 0.9.
\<close>

theorem pie_sum_counterexample:
  "proc_pie (Fin (8106479329266893 / 9007199254740992)) (Fin (3602879701896397 / 18014398509481984))
     = Fin (3602879701896397 / 18014398509481984)
   \<and> gap_pie (Fin (8106479329266893 / 9007199254740992)) (Fin (3602879701896397 / 18014398509481984))
     = Fin (3152519739159347 / 4503599627370496)
   \<and> (3602879701896397 / 18014398509481984 + 3152519739159347 / 4503599627370496 :: real)
     \<noteq> 8106479329266893 / 9007199254740992
   \<and> fl_add (Fin (3602879701896397 / 18014398509481984)) (Fin (3152519739159347 / 4503599627370496))
     = Fin (2026619832316723 / 2251799813685248)
   \<and> (2026619832316723 / 2251799813685248 :: real) \<noteq> 8106479329266893 / 9007199254740992"
proof -
  have gap: "round64 (12610078956637389 / 18014398509481984)
      = Fin (3152519739159347 / 4503599627370496)"
    by (subst round64_eval [where e = "- 1"])
      (simp_all add: power_int_minus round_half_even_def)
  have sum: "round64 (16212958658533785 / 18014398509481984)
      = Fin (2026619832316723 / 2251799813685248)"
    by (subst round64_eval [where e = "- 1"])
      (simp_all add: power_int_minus round_half_even_def)
  show ?thesis
    by (simp add: proc_pie_def gap_pie_def py_min_def fl_sub_def fl_add_def pf_sub_def gap sum)
qed

lemma cap_range:
  assumes "pf_ge x (Fin 0)"
  shows "\<exists>c. (if pf_greater (fl_mul x (Fin 100)) (Fin 100) then Fin 100
              else fl_mul x (Fin 100)) = Fin c \<and> 0 \<le> c \<and> c \<le> 100"
proof (cases x)
  case (Fin q)
  with assms have "0 \<le> q * 100" by simp
  then have nn: "pf_ge (round64 (q * 100)) (Fin 0)" by (rule round64_nonneg)
  show ?thesis
    by (cases "round64 (q * 100)") (use nn Fin in \<open>auto simp: fl_mul_def pf_greater_def\<close>)
next
  case PInf
  then show ?thesis by (simp add: fl_mul_def inf_of_sign_def pf_greater_def)
qed (use assms in simp_all)

text \<open>
  C7, amended: for generated \<open>g \<ge> 0\<close> and processed \<open>p \<ge> 0\<close> the pie shows \<open>min p g\<close>
  and the float nearest to \<open>g - min p g\<close>, both non-negative. They sum to \<open>g\<close> up to the
  rounding of that one subtraction, at most half a unit in its last place, and exactly
  when the processed figure is at least the generated one (the gap is then 0) or the
  difference is itself a float. The percentage is the float result of \<open>p / g * 100\<close> when
  \<open>g > 0\<close> and 0 otherwise, capped at 100, so it lies between 0 and 100; it is
  \<open>min 100 (p / g * 100)\<close> itself when the quotient and the product are floats.
\<close>

theorem waste_ratios:
  assumes "0 \<le> g" and "0 \<le> p"
  shows "proc_pie (Fin g) (Fin p) = Fin (min p g)
     \<and> gap_pie (Fin g) (Fin p) = round64 (g - min p g)
     \<and> 0 \<le> min p g
     \<and> pf_ge (gap_pie (Fin g) (Fin p)) (Fin 0)
     \<and> (g \<le> p \<longrightarrow> gap_pie (Fin g) (Fin p) = Fin 0 \<and> min p g + 0 = g)
     \<and> (round64 (g - min p g) = Fin (g - min p g)
          \<longrightarrow> gap_pie (Fin g) (Fin p) = Fin (g - min p g) \<and> min p g + (g - min p g) = g)
     \<and> (\<forall>d. gap_pie (Fin g) (Fin p) = Fin d
          \<longrightarrow> 0 \<le> d \<and> \<bar>min p g + d - g\<bar> \<le> ulp (g - min p g) / 2)
     \<and> processed_percent (Fin g) (Fin p) =
          Inr (if 0 < g
               then (if pf_greater (fl_mul (round64 (p / g)) (Fin 100)) (Fin 100) then Fin 100
                     else fl_mul (round64 (p / g)) (Fin 100))
               else Fin 0)
     \<and> (\<exists>c. processed_percent (Fin g) (Fin p) = Inr (Fin c) \<and> 0 \<le> c \<and> c \<le> 100)
     \<and> (round64 (p / g) = Fin (p / g) \<and> round64 (p / g * 100) = Fin (p / g * 100)
          \<longrightarrow> processed_percent (Fin g) (Fin p)
                = Inr (Fin (min 100 (if 0 < g then p / g * 100 else 0))))"
proof -
  have pie: "proc_pie (Fin g) (Fin p) = Fin (min p g)"
    by (simp add: proc_pie_def py_min_def min_def)
  have gap: "gap_pie (Fin g) (Fin p) = round64 (g - min p g)"
    by (simp add: gap_pie_def pie fl_sub_def pf_sub_def)
  have nonneg: "pf_ge (round64 (g - min p g)) (Fin 0)"
    by (rule round64_nonneg) simp
  have zero: "round64 (g - min p g) = Fin 0" if "g \<le> p"
    using that by (simp add: min_def)
  have close: "0 \<le> d \<and> \<bar>min p g + d - g\<bar> \<le> ulp (g - min p g) / 2"
    if "round64 (g - min p g) = Fin d" for d
  proof -
    have e: "min p g + d - g = d - (g - min p g)" by simp
    have "\<bar>d - (g - min p g)\<bar> \<le> ulp (g - min p g) / 2"
      using that by (rule round64_close)
    moreover have "0 \<le> d" using nonneg that by simp
    ultimately show ?thesis unfolding e by blast
  qed
  have pct: "processed_percent (Fin g) (Fin p) =
          Inr (if 0 < g
               then (if pf_greater (fl_mul (round64 (p / g)) (Fin 100)) (Fin 100) then Fin 100
                     else fl_mul (round64 (p / g)) (Fin 100))
               else Fin 0)"
    by (simp add: processed_percent_def pf_greater_def fl_div_def)
  have "0 \<le> p / g" using assms by simp
  then have "pf_ge (round64 (p / g)) (Fin 0)" by (rule round64_nonneg)
  from cap_range [OF this]
  have range: "\<exists>c. processed_percent (Fin g) (Fin p) = Inr (Fin c) \<and> 0 \<le> c \<and> c \<le> 100"
    unfolding pct by (cases "0 < g") simp_all
  have exact: "processed_percent (Fin g) (Fin p)
                = Inr (Fin (min 100 (if 0 < g then p / g * 100 else 0)))"
    if "round64 (p / g) = Fin (p / g)" "round64 (p / g * 100) = Fin (p / g * 100)"
    unfolding pct using that by (simp add: fl_mul_def pf_greater_def min_def)
  show ?thesis
    unfolding gap pie using assms nonneg zero close pct range exact by (simp add: min_def)
qed

theorem waste_ratios_witness:
  "proc_pie (Fin 40) (Fin 50) = Fin 40 \<and> gap_pie (Fin 40) (Fin 50) = Fin 0
   \<and> processed_percent (Fin 40) (Fin 50) = Inr (Fin 100)
   \<and> proc_pie (Fin 40) (Fin 10) = Fin 10 \<and> gap_pie (Fin 40) (Fin 10) = Fin 30
   \<and> processed_percent (Fin 40) (Fin 10) = Inr (Fin 25)"
proof -
  have i: "round64 (real_of_int n) = Fin (real_of_int n)" if "\<bar>n\<bar> < 2 ^ 53" for n
    using that by (rule round64_int)
  have r: "round64 30 = Fin 30" "round64 25 = Fin 25" "round64 125 = Fin 125"
    using i [of 30] i [of 25] i [of 125] by simp_all
  have q: "round64 (1 / 4) = Fin (1 / 4)"
    by (subst round64_eval [where e = "- 2"]) (simp_all add: power_int_minus)
  have q': "round64 (5 / 4) = Fin (5 / 4)"
    by (subst round64_eval [where e = 0]) (simp_all add: power_int_minus)
  have a: "proc_pie (Fin 40) (Fin 50) = Fin 40 \<and> gap_pie (Fin 40) (Fin 50) = Fin 0
      \<and> processed_percent (Fin 40) (Fin 50) = Inr (Fin 100)"
    using waste_ratios [of 40 50] r q' by (simp add: fl_mul_def pf_greater_def)
  have b: "proc_pie (Fin 40) (Fin 10) = Fin 10 \<and> gap_pie (Fin 40) (Fin 10) = Fin 30
      \<and> processed_percent (Fin 40) (Fin 10) = Inr (Fin 25)"
    using waste_ratios [of 40 10] r q by (simp add: fl_mul_def pf_greater_def)
  from a b show ?thesis by simp
qed

subsection \<open>The resolved values\<close>

lemma safe_nonneg:
  assumes "empty_or_nonneg v"
  shows "\<exists>f. safe v = Inr f \<and> pf_ge f (Fin 0)"
proof (cases v)
  case (PFloat x)
  with assms show ?thesis by (cases x) (simp_all add: safe_def)
next
  case (PInt i)
  with assms have i: "0 \<le> i" and ok: "py_float (PInt i) \<noteq> Inl OverflowError" by simp_all
  have "pf_ge (round64 (of_int i)) (Fin 0)" using i by (intro round64_nonneg) simp
  with ok PInt show ?thesis
    by (cases "round64 (of_int i)") (simp_all add: safe_def)
qed (use assms in \<open>simp_all add: safe_def\<close>)

lemma row_get_nonneg:
  assumes "\<forall>c \<in> set numeric_columns. \<forall>v. r c = Some v \<longrightarrow> empty_or_nonneg v"
    and "c \<in> set numeric_columns" and "empty_or_nonneg d"
  shows "\<exists>f. safe (row_get r c d) = Inr f \<and> pf_ge f (Fin 0)"
proof -
  have "empty_or_nonneg (row_get r c d)"
    using assms by (auto simp: row_get_def split: option.splits)
  then show ?thesis by (rule safe_nonneg)
qed

lemma div_365_nonneg:
  assumes "pf_ge f (Fin 0)"
  shows "\<exists>e. pf_div f (Fin 365) = Inr e \<and> pf_ge e (Fin 0)"
  using assms by (cases f) (simp_all add: inf_of_sign_def)
lemma safe_empty:
  assumes "r c = None \<or> r c = Some PNone \<or> r c = Some (PFloat NaN)"
    and "d = PInt 0 \<or> d = PNone"
  shows "safe (row_get r c d) = Inr (Fin 0)"
  using assms by (auto simp: row_get_def safe_def)

lemma resolve_iff:
  "resolve r = Inr a \<longleftrightarrow>
     (\<forall>(c, d, sel) \<in> set field_table. safe (row_get r c d) = Inr (sel a))
     \<and> (\<exists>t. safe (row_get r ''Sum of e-waste Generation (TPA)'' (PInt 0)) = Inr t
            \<and> pf_div t (Fin 365) = Inr (attr_ew a))"
  by (cases a) (auto simp: resolve_def field_table_def bindE_eq_Inr simp del: pf_div.simps)

text \<open>
  The record is what a report is built from: whenever the callback returns a report for a
  row, the ten values were read, and the waste summary shows five of them.
\<close>

lemma report_resolve:
  assumes "report solve name r = Inr (c1, c2, c3, c4)"
  shows "\<exists>a. resolve r = Inr a
     \<and> c4 = Waste_comp_section
            [(''Total Solid Waste Generated'', attr_sw_gen a, ''TPD'', ''blue''),
             (''Plastic Waste'', attr_pw a, ''TPD'', ''green''),
             (''C&D Waste'', attr_cd a, ''TPD'', ''orange''),
             (''E-waste'', attr_ew a, ''TPD'', ''red''),
             (''Sewage Waste'', attr_sewage_gen a, ''MLD'', ''brown'')]"
  using assms unfolding report_def resolve_def
  by (auto simp: bindE_eq_Inr simp del: pf_div.simps)

text \<open>
  C4, as the spec states it: no field of the resolved record is ever negative or NaN.
  A negative cell comes through \<^verbatim>\<open>safe\<close> unchanged.
\<close>

theorem resolve_negative_counterexample:
  "resolve [''Sum of SW_Generation (TPD)'' \<mapsto> PFloat (Fin (- 5))]
     = Inr (all_zero \<lparr>attr_sw_gen := Fin (- 5)\<rparr>)
   \<and> \<not> pf_ge (Fin (- 5)) (Fin 0)"
  by (simp add: resolve_def row_get_def safe_def all_zero_def)

text \<open>
  C4, amended: the ten values are read exactly when \<^verbatim>\<open>safe\<close> accepts all ten cells, and
  each value is then what \<^verbatim>\<open>safe\<close> gives for its cell (the e-waste figure divided by
  365): 0.0 for a cell that is absent, \<^verbatim>\<open>None\<close> or NaN, and the number itself for a float
  cell, negative or not. When every numeric cell of the row is absent, empty or a number
  that is not negative, all ten values are read and none of them is negative or NaN.
\<close>

theorem resolve_fields:
  "(resolve r = Inr a \<longleftrightarrow>
      (\<forall>(c, d, sel) \<in> set field_table. safe (row_get r c d) = Inr (sel a))
      \<and> (\<exists>t. safe (row_get r ''Sum of e-waste Generation (TPA)'' (PInt 0)) = Inr t
             \<and> pf_div t (Fin 365) = Inr (attr_ew a)))
   \<and> ((r c = None \<or> r c = Some PNone \<or> r c = Some (PFloat NaN)) \<and> (d = PInt 0 \<or> d = PNone)
        \<longrightarrow> safe (row_get r c d) = Inr (Fin 0))
   \<and> (r c = Some (PFloat (Fin v)) \<longrightarrow> safe (row_get r c d) = Inr (Fin v))
   \<and> ((\<forall>c \<in> set numeric_columns. \<forall>v. r c = Some v \<longrightarrow> empty_or_nonneg v)
        \<longrightarrow> (\<exists>b. resolve r = Inr b
               \<and> (\<forall>(c, d, sel) \<in> set field_table. pf_ge (sel b) (Fin 0))
               \<and> pf_ge (attr_ew b) (Fin 0)))"
proof -
  have cell: "safe (row_get r c d) = Inr (Fin v)" if "r c = Some (PFloat (Fin v))"
    using that by (simp add: row_get_def safe_def)
  have nonneg: "\<exists>b. resolve r = Inr b
               \<and> (\<forall>(c, d, sel) \<in> set field_table. pf_ge (sel b) (Fin 0))
               \<and> pf_ge (attr_ew b) (Fin 0)"
    if h: "\<forall>c \<in> set numeric_columns. \<forall>v. r c = Some v \<longrightarrow> empty_or_nonneg v"
  proof -
    note get = row_get_nonneg [OF h]
    obtain f1 where f1: "safe (row_get r ''Sum of Census 2011 Population'' (PInt 0)) = Inr f1" "pf_ge f1 (Fin 0)"
      using get [of "''Sum of Census 2011 Population''" "PInt 0"] by (auto simp: numeric_columns_def)
    obtain f2 where f2: "safe (row_get r ''Sum of SW_Generation (TPD)'' (PInt 0)) = Inr f2" "pf_ge f2 (Fin 0)"
      using get [of "''Sum of SW_Generation (TPD)''" "PInt 0"] by (auto simp: numeric_columns_def)
    obtain f3 where f3: "safe (row_get r ''Sum of SW_Processed_ (TPD)'' (PInt 0)) = Inr f3" "pf_ge f3 (Fin 0)"
      using get [of "''Sum of SW_Processed_ (TPD)''" "PInt 0"] by (auto simp: numeric_columns_def)
    obtain f4 where f4: "safe (row_get r ''Sum of SW Collection Gap (in TPD)'' (PInt 0)) = Inr f4" "pf_ge f4 (Fin 0)"
      using get [of "''Sum of SW Collection Gap (in TPD)''" "PInt 0"] by (auto simp: numeric_columns_def)
    obtain f5 where f5: "safe (row_get r ''Sum of Sewage Generation (in MLD)'' (PInt 0)) = Inr f5" "pf_ge f5 (Fin 0)"
      using get [of "''Sum of Sewage Generation (in MLD)''" "PInt 0"] by (auto simp: numeric_columns_def)
    obtain f6 where f6: "safe (row_get r ''Average of Decadal Grouth Rate in % (During 2001-2011)'' PNone) = Inr f6" "pf_ge f6 (Fin 0)"
      using get [of "''Average of Decadal Grouth Rate in % (During 2001-2011)''" PNone] by (auto simp: numeric_columns_def)
    obtain f7 where f7: "safe (row_get r ''Sum of Projected Population by 2025'' (PInt 0)) = Inr f7" "pf_ge f7 (Fin 0)"
      using get [of "''Sum of Projected Population by 2025''" "PInt 0"] by (auto simp: numeric_columns_def)
    obtain f8 where f8: "safe (row_get r ''Sum of Estimated PW Generation in TPD'' (PInt 0)) = Inr f8" "pf_ge f8 (Fin 0)"
      using get [of "''Sum of Estimated PW Generation in TPD''" "PInt 0"] by (auto simp: numeric_columns_def)
    obtain f9 where f9: "safe (row_get r ''Sum of C&D Waste Generation in TPD - 2025'' (PInt 0)) = Inr f9" "pf_ge f9 (Fin 0)"
      using get [of "''Sum of C&D Waste Generation in TPD - 2025''" "PInt 0"] by (auto simp: numeric_columns_def)
    obtain f10 where f10: "safe (row_get r ''Sum of e-waste Generation (TPA)'' (PInt 0)) = Inr f10" "pf_ge f10 (Fin 0)"
      using get [of "''Sum of e-waste Generation (TPA)''" "PInt 0"] by (auto simp: numeric_columns_def)
    obtain e where e: "pf_div f10 (Fin 365) = Inr e" "pf_ge e (Fin 0)"
      using div_365_nonneg [OF f10(2)] by blast
    have "resolve r =
        Inr \<lparr>attr_census_pop = f1, attr_sw_gen = f2, attr_sw_proc = f3, attr_sw_gap = f4,
             attr_sewage_gen = f5, attr_growth_rate = f6, attr_pop_2025 = f7, attr_pw = f8,
             attr_cd = f9, attr_ew = e\<rparr>"
      unfolding resolve_def
      by (simp add: f1 f2 f3 f4 f5 f6 f7 f8 f9 f10 e del: pf_div.simps)
    then show ?thesis
      using f1(2) f2(2) f3(2) f4(2) f5(2) f6(2) f7(2) f8(2) f9(2) e(2)
      by (simp add: field_table_def)
  qed
  from resolve_iff [of r a] safe_empty [of r c d] cell nonneg show ?thesis
    by blast
qed

theorem resolve_fields_witness:
  "resolve [''Sum of SW_Generation (TPD)'' \<mapsto> PFloat (Fin 40),
            ''Sum of SW_Processed_ (TPD)'' \<mapsto> PFloat NaN,
            ''Sum of Sewage Generation (in MLD)'' \<mapsto> PFloat (Fin (- 3))]
     = Inr (all_zero \<lparr>attr_sw_gen := Fin 40, attr_sewage_gen := Fin (- 3)\<rparr>)
   \<and> (\<exists>b. resolve [''Sum of SW_Generation (TPD)'' \<mapsto> PFloat (Fin 40),
                      ''Sum of SW_Processed_ (TPD)'' \<mapsto> PInt 7] = Inr b
          \<and> attr_sw_gen b = Fin 40 \<and> attr_sw_proc b = Fin 7 \<and> pf_ge (attr_sw_proc b) (Fin 0))"
proof -
  let ?r = "[''Sum of SW_Generation (TPD)'' \<mapsto> PFloat (Fin 40),
             ''Sum of SW_Processed_ (TPD)'' \<mapsto> PFloat NaN,
             ''Sum of Sewage Generation (in MLD)'' \<mapsto> PFloat (Fin (- 3))]"
  let ?s = "[''Sum of SW_Generation (TPD)'' \<mapsto> PFloat (Fin 40),
             ''Sum of SW_Processed_ (TPD)'' \<mapsto> PInt 7]"
  let ?a = "all_zero \<lparr>attr_sw_gen := Fin 40, attr_sewage_gen := Fin (- 3)\<rparr>"
  have "round64 (real_of_int 7) = Fin (real_of_int 7)" by (rule round64_int) simp
  then have r7: "round64 7 = Fin 7" by simp
  have cells: "(\<forall>(c, d, sel) \<in> set field_table. safe (row_get ?r c d) = Inr (sel ?a))
      \<and> (\<exists>t. safe (row_get ?r ''Sum of e-waste Generation (TPA)'' (PInt 0)) = Inr t
             \<and> pf_div t (Fin 365) = Inr (attr_ew ?a))"
    by (simp add: field_table_def row_get_def safe_def all_zero_def)
  have first: "resolve ?r = Inr ?a"
    using resolve_fields [of ?r ?a "''x''" PNone 0] cells by blast
  have h: "\<forall>c \<in> set numeric_columns. \<forall>v. ?s c = Some v \<longrightarrow> empty_or_nonneg v"
    by (simp add: numeric_columns_def r7)
  from resolve_fields [of ?s ?a "''x''" PNone 0] h
  obtain b where b: "resolve ?s = Inr b" "\<forall>(c, d, sel) \<in> set field_table. pf_ge (sel b) (Fin 0)"
    by blast
  from b(1) have "attr_sw_gen b = Fin 40 \<and> attr_sw_proc b = Fin 7"
    by (auto simp: resolve_def row_get_def safe_def bindE_eq_Inr r7)
  with b first show ?thesis by (auto simp: field_table_def)
qed

subsection \<open>The district lookup\<close>

lemma is_space_lower: "is_space c \<Longrightarrow> lower_char c = c"
  unfolding is_space_def white_space_def
  by (elim disjE | simp add: lower_char_def lower_table_def)+

lemma py_lower_spaces: "list_all is_space ws \<Longrightarrow> py_lower ws = ws"
  by (induction ws) (simp_all add: py_lower_def is_space_lower)

lemma py_strip_padding:
  assumes "list_all is_space pre" and "list_all is_space post"
  shows "py_strip (pre @ u @ post) = py_strip u"
proof -
  have pre: "dropWhile is_space (pre @ u @ post) = dropWhile is_space (u @ post)"
    using assms(1) by (simp add: dropWhile_append2 list_all_iff)
  have post: "dropWhile is_space (rev post @ ys) = dropWhile is_space ys" for ys
    using assms(2) by (intro dropWhile_append2) (simp add: list_all_iff)
  show ?thesis
  proof (cases "dropWhile is_space u = []")
    case True
    then have all: "\<forall>c \<in> set u. is_space c" by (simp add: dropWhile_eq_Nil_conv)
    then have nil: "dropWhile is_space (u @ post) = []"
      using assms(2) by (auto simp: dropWhile_eq_Nil_conv list_all_iff)
    show ?thesis unfolding py_strip_def pre nil True by simp
  next
    case False
    then obtain c where "c \<in> set u" "\<not> is_space c"
      by (auto simp: dropWhile_eq_Nil_conv)
    then have app: "dropWhile is_space (u @ post) = dropWhile is_space u @ post"
      by (simp add: dropWhile_append1)
    show ?thesis unfolding py_strip_def pre app rev_append post by simp
  qed
qed

lemma normalise_padding:
  assumes "list_all is_space pre" and "list_all is_space post" and "py_lower t = py_lower s"
  shows "py_strip (py_lower (pre @ t @ post)) = py_strip (py_lower s)"
proof -
  have "py_lower (pre @ t @ post) = pre @ py_lower s @ post"
    using assms py_lower_spaces [of pre] py_lower_spaces [of post]
    by (simp add: py_lower_def)
  then show ?thesis by (simp add: py_strip_padding [OF assms(1,2)])
qed

lemma case_filter_find:
  "(case filter P xs of [] \<Rightarrow> a | x # _ \<Rightarrow> f x) = (case find P xs of None \<Rightarrow> a | Some x \<Rightarrow> f x)"
  by (induction xs) simp_all

lemma update_dashboard_find:
  "update_dashboard solve df (Dict (Some (Some name # ps))) =
     (case find (\<lambda>r. district_key r = Some (py_strip (py_lower name))) df of
        None \<Rightarrow> Inr (no_data, no_data, no_data, no_data)
      | Some r \<Rightarrow> report solve name r)"
  by (simp add: update_dashboard_def match_row_def case_filter_find)

lemma report_not_no_data: "report solve name r \<noteq> Inr (no_data, no_data, no_data, no_data)"
proof
  assume "report solve name r = Inr (no_data, no_data, no_data, no_data)"
  then show False
    unfolding report_def by (auto simp: bindE_eq_Inr no_data_def)
qed
text \<open>
  C9: when no row has the clicked name, compared without letter case and outer white
  space, all four outputs are the message "No data for selected district", which is
  neither the placeholder nor anything a report returns; a name that differs from a row's
  name only in letter case and outer white space selects the first row of that name, and
  the outputs are that row's report.
\<close>

theorem district_lookup:
  "((\<forall>r \<in> set df. district_key r \<noteq> Some (py_strip (py_lower name)))
      \<longrightarrow> update_dashboard solve df (Dict (Some (Some name # ps)))
            = Inr (no_data, no_data, no_data, no_data))
   \<and> no_data \<noteq> placeholder
   \<and> report solve name' r' \<noteq> Inr (no_data, no_data, no_data, no_data)
   \<and> (r \<in> set df \<and> r ''District'' = Some (PStr s) \<and> py_lower t = py_lower s
        \<and> list_all is_space pre \<and> list_all is_space post
      \<longrightarrow> (\<exists>r0 \<in> set df.
             find (\<lambda>x. district_key x = district_key r) df = Some r0
             \<and> district_key r0 = district_key r
             \<and> update_dashboard solve df (Dict (Some (Some (pre @ t @ post) # ps)))
                 = report solve (pre @ t @ post) r0))"
proof -
  have none: "update_dashboard solve df (Dict (Some (Some name # ps)))
            = Inr (no_data, no_data, no_data, no_data)"
    if "\<forall>r \<in> set df. district_key r \<noteq> Some (py_strip (py_lower name))"
  proof -
    have "find (\<lambda>r. district_key r = Some (py_strip (py_lower name))) df = None"
      using that by (simp add: find_None_iff)
    then show ?thesis by (simp add: update_dashboard_find)
  qed
  have found: "\<exists>r0 \<in> set df.
             find (\<lambda>x. district_key x = district_key r) df = Some r0
             \<and> district_key r0 = district_key r
             \<and> update_dashboard solve df (Dict (Some (Some (pre @ t @ post) # ps)))
                 = report solve (pre @ t @ post) r0"
    if r: "r \<in> set df" "r ''District'' = Some (PStr s)" "py_lower t = py_lower s"
      "list_all is_space pre" "list_all is_space post"
  proof -
    have key: "district_key r = Some (py_strip (py_lower (pre @ t @ post)))"
      using r(2) normalise_padding [OF r(4,5,3)] by (simp add: district_key_def)
    obtain r0 where r0: "find (\<lambda>x. district_key x = district_key r) df = Some r0"
      using r(1) by (cases "find (\<lambda>x. district_key x = district_key r) df")
        (auto simp: find_None_iff)
    then have "r0 \<in> set df" "district_key r0 = district_key r"
      by (auto simp: find_Some_iff)
    with r0 show ?thesis
      by (auto simp: update_dashboard_find key [symmetric])
  qed
  have "no_data \<noteq> placeholder"
    by (simp add: no_data_def placeholder_def)
  with none found report_not_no_data show ?thesis by blast
qed

lemma match_bhopal: "match_row [bhopal] '' BHOPAL '' = [bhopal]"
  by (simp add: match_row_def bhopal_def name_defs)

theorem district_lookup_witness:
  "update_dashboard zero_solver [bhopal] (click_on ''Indore'') = Inr (no_data, no_data, no_data, no_data)
   \<and> update_dashboard zero_solver [bhopal] (click_on '' BHOPAL '')
       = report zero_solver '' BHOPAL '' bhopal"
proof -
  have a: "\<forall>r \<in> set [bhopal]. district_key r \<noteq> Some (py_strip (py_lower ''Indore''))"
    by (simp add: bhopal_def name_defs)
  have b: "bhopal \<in> set [bhopal] \<and> bhopal ''District'' = Some (PStr ''Bhopal'')
      \<and> py_lower ''BHOPAL'' = py_lower ''Bhopal'' \<and> list_all is_space '' '' \<and> list_all is_space '' ''"
    by (simp add: bhopal_def name_defs)
  show ?thesis
    using district_lookup [of "[bhopal]" "''Indore''" zero_solver "[]" "''x''" bhopal bhopal "''Bhopal''" "''BHOPAL''" "'' ''" "'' ''"]
      a b
    by (simp add: click_on_def)
qed

subsection \<open>The report and the solver\<close>

lemma report_growth_rate:
  assumes same: "\<And>k. k \<noteq> ''Average of Decadal Grouth Rate in % (During 2001-2011)'' \<Longrightarrow> r' k = r k"
    and ok: "safe (row_get r ''Average of Decadal Grouth Rate in % (During 2001-2011)'' PNone) = Inr f"
    and ok': "safe (row_get r' ''Average of Decadal Grouth Rate in % (During 2001-2011)'' PNone) = Inr f'"
  shows "report solve name r' = report solve name r"
proof -
  have get: "row_get r' k d = row_get r k d"
    if "k \<noteq> ''Average of Decadal Grouth Rate in % (During 2001-2011)''" for k d
    using same [OF that] by (simp add: row_get_def)
  show ?thesis
    unfolding report_def by (simp add: get ok ok')
qed

lemma report_solver:
  assumes "safe (row_get r ''Sum of SW_Generation (TPD)'' (PInt 0)) = Inr g"
    and "solve' (vehicle_problem g) = solve (vehicle_problem g)"
  shows "report solve' name r = report solve name r"
proof (cases "safe (row_get r ''Sum of Census 2011 Population'' (PInt 0))")
  case (Inl e)
  then show ?thesis unfolding report_def by simp
next
  case (Inr c)
  then show ?thesis unfolding report_def by (simp add: assms)
qed

lemma report_vehicles:
  assumes "report solve name r = Inr (c1, c2, c3, c4)"
  shows "\<exists>g x y z w. safe (row_get r ''Sum of SW_Generation (TPD)'' (PInt 0)) = Inr g
     \<and> solve (vehicle_problem g) = Inr (x, y, z)
     \<and> c3 = Waste_char_section w
     \<and> Inr (vehicle_cards w) = 
         bindE (int_value x) (\<lambda>a. bindE (int_value y) (\<lambda>b. bindE (int_value z) (\<lambda>c. Inr (a, b, c))))"
  using assms unfolding report_def
  by (auto simp: bindE_eq_Inr)

lemma idle_fails:
  "update_dashboard failing_solver [idle] (click_on ''Bhopal'') = Inl PulpSolverError"
  by (simp add: update_dashboard_def click_on_def match_row_def idle_def name_defs report_eval failing_solver_def)

lemma idle_zero:
  "\<exists>out. update_dashboard zero_solver [idle] (click_on ''Bhopal'') = Inr out"
  by (simp add: update_dashboard_def click_on_def match_row_def idle_def name_defs report_eval zero_solver_def)

lemma bhopal_probe_gap:
  "update_dashboard (probe_solver (Fin 30)) [bhopal] (click_on ''Bhopal'') = Inl PulpSolverError"
  by (simp add: update_dashboard_def click_on_def match_row_def bhopal_def name_defs report_eval probe_solver_def vehicle_problem_def)

lemma bhopal_probe_gen:
  "\<exists>out. update_dashboard (probe_solver (Fin 40)) [bhopal] (click_on ''Bhopal'') = Inr out"
  by (simp add: update_dashboard_def click_on_def match_row_def bhopal_def name_defs report_eval probe_solver_def vehicle_problem_def two_trucks_solver_def)

lemma processed_percent_total: "\<exists>p. processed_percent g s = Inr p"
  by (cases g; cases s)
    (auto simp: processed_percent_def pf_greater_def bindE_def fl_div_def inf_of_sign_def)

lemma py_round2_Float: "\<exists>y. py_round2 (Float x) = Inr y"
  by (cases x) simp_all

lemma forecast_values_finite:
  "pop_forecast_values (Fin C) (Fin P) =
     Inr (map (\<lambda>year.
            if 0 < C \<and> P < 0 then Complex_number
            else Float (Fin (P * (1 + (if 0 < C then (P / C) powr (1 / 14) - 1 else 0))
                                   ^ nat (year - 2025))))
          [2025, 2026, 2027, 2028, 2029, 2030])"
  by (simp add: pop_forecast_values_def CAGR_finite bindE_def years_list pf_pow_nat_Fin not_le)

lemma forecast_rounds:
  assumes "\<not> (0 < C \<and> P < 0)"
  shows "\<exists>vals ys ks. pop_forecast_values (Fin C) (Fin P) = Inr vals
     \<and> mapE py_round2 vals = Inr ys \<and> mapE py_round vals = Inr ks"
  using assms by (simp add: forecast_values_finite)

text \<open>
  C2: for a row whose values are read and whose two population figures are finite and give
  a real forecast, the callback is the solver applied to the problem whose required
  capacity is the generated solid waste of the row: an exception of the solver is the
  exception of the callback, and otherwise the three vehicle cards are the solver's
  answers under \<^verbatim>\<open>int\<close>, next to components that do not depend on the solver. The
  processed figure and the collection gap do not enter the problem.
\<close>

theorem required_capacity_is_generated:
  assumes "match_row df name = r # rest"
    and "resolve r = Inr a"
    and "attr_census_pop a = Fin C" and "attr_pop_2025 a = Fin P" and "\<not> (0 < C \<and> P < 0)"
  shows "required (vehicle_problem (attr_sw_gen a)) = attr_sw_gen a
     \<and> safe (row_get r ''Sum of SW_Generation (TPD)'' (PInt 0)) = Inr (attr_sw_gen a)
     \<and> (\<exists>c2 pct bars pies c4. \<forall>solve.
          update_dashboard solve df (Dict (Some (Some name # ps))) =
            bindE (solve (vehicle_problem (attr_sw_gen a))) (\<lambda>(x, y, z).
            bindE (int_value x) (\<lambda>bulk_opt.
            bindE (int_value y) (\<lambda>lcv_opt.
            bindE (int_value z) (\<lambda>tri_opt.
              Inr (District_card name, c2,
                   Waste_char_section
                     \<lparr>waste_kpi_card_1 = pct, bar_fig = bars, pie_fig = pies,
                      vehicle_cards = (bulk_opt, lcv_opt, tri_opt)\<rparr>,
                   c4))))))"
proof -
  from assms(2) obtain t where
    s: "safe (row_get r ''Sum of Census 2011 Population'' (PInt 0)) = Inr (attr_census_pop a)"
       "safe (row_get r ''Sum of SW_Generation (TPD)'' (PInt 0)) = Inr (attr_sw_gen a)"
       "safe (row_get r ''Sum of SW_Processed_ (TPD)'' (PInt 0)) = Inr (attr_sw_proc a)"
       "safe (row_get r ''Sum of SW Collection Gap (in TPD)'' (PInt 0)) = Inr (attr_sw_gap a)"
       "safe (row_get r ''Sum of Sewage Generation (in MLD)'' (PInt 0)) = Inr (attr_sewage_gen a)"
       "safe (row_get r ''Average of Decadal Grouth Rate in % (During 2001-2011)'' PNone)
          = Inr (attr_growth_rate a)"
       "safe (row_get r ''Sum of Projected Population by 2025'' (PInt 0)) = Inr (attr_pop_2025 a)"
       "safe (row_get r ''Sum of Estimated PW Generation in TPD'' (PInt 0)) = Inr (attr_pw a)"
       "safe (row_get r ''Sum of C&D Waste Generation in TPD - 2025'' (PInt 0)) = Inr (attr_cd a)"
    and ew: "safe (row_get r ''Sum of e-waste Generation (TPA)'' (PInt 0)) = Inr t"
       "pf_div t (Fin 365) = Inr (attr_ew a)"
    unfolding resolve_iff by (auto simp: field_table_def)
  obtain pct where pct: "processed_percent (attr_sw_gen a) (attr_sw_proc a) = Inr pct"
    using processed_percent_total by blast
  obtain vals ys ks where f: "pop_forecast_values (Fin C) (Fin P) = Inr vals"
      "mapE py_round2 vals = Inr ys" "mapE py_round vals = Inr ks"
    using forecast_rounds [OF assms(5)] by blast
  obtain gen_y proc_y gap_y where y: "py_round2 (Float (attr_sw_gen a)) = Inr gen_y"
      "py_round2 (Float (attr_sw_proc a)) = Inr proc_y" "py_round2 (Float (attr_sw_gap a)) = Inr gap_y"
    using py_round2_Float by meson
  have "\<forall>solve. update_dashboard solve df (Dict (Some (Some name # ps))) =
      bindE (solve (vehicle_problem (attr_sw_gen a))) (\<lambda>(x, y, z).
      bindE (int_value x) (\<lambda>bulk_opt.
      bindE (int_value y) (\<lambda>lcv_opt.
      bindE (int_value z) (\<lambda>tri_opt.
        Inr (District_card name,
             Pop_section
               \<lparr>census_card = (if 0 \<le> C then \<lfloor>C\<rfloor> else \<lceil>C\<rceil>),
                pop_forecast_fig = zip years ys, population_kpi_cards = zip years ks\<rparr>,
             Waste_char_section
               \<lparr>waste_kpi_card_1 = pct,
                bar_fig = [(''Generated'', attr_sw_gen a, gen_y),
                           (''Processed'', attr_sw_proc a, proc_y),
                           (''Gap'', attr_sw_gap a, gap_y)],
                pie_fig = [(''Processed'', proc_pie (attr_sw_gen a) (attr_sw_proc a)),
                           (''Gap'', gap_pie (attr_sw_gen a) (attr_sw_proc a))],
                vehicle_cards = (bulk_opt, lcv_opt, tri_opt)\<rparr>,
             Waste_comp_section
               [(''Total Solid Waste Generated'', attr_sw_gen a, ''TPD'', ''blue''),
                (''Plastic Waste'', attr_pw a, ''TPD'', ''green''),
                (''C&D Waste'', attr_cd a, ''TPD'', ''orange''),
                (''E-waste'', attr_ew a, ''TPD'', ''red''),
                (''Sewage Waste'', attr_sewage_gen a, ''MLD'', ''brown'')])))))"
    unfolding update_dashboard_def report_def
    by (simp add: assms(1) s ew pct assms(3,4) f y del: pf_div.simps)
  then have "\<exists>c2 pct bars pies c4. \<forall>solve.
          update_dashboard solve df (Dict (Some (Some name # ps))) =
            bindE (solve (vehicle_problem (attr_sw_gen a))) (\<lambda>(x, y, z).
            bindE (int_value x) (\<lambda>bulk_opt.
            bindE (int_value y) (\<lambda>lcv_opt.
            bindE (int_value z) (\<lambda>tri_opt.
              Inr (District_card name, c2,
                   Waste_char_section
                     \<lparr>waste_kpi_card_1 = pct, bar_fig = bars, pie_fig = pies,
                      vehicle_cards = (bulk_opt, lcv_opt, tri_opt)\<rparr>,
                   c4)))))"
    by blast
  then show ?thesis
    by (simp add: s(2) vehicle_problem_def)
qed

theorem required_capacity_is_generated_witness:
  "(\<exists>c2 pct bars pies c4.
      update_dashboard (probe_solver (Fin 40)) [bhopal] (Dict (Some [Some '' BHOPAL '']))
        = Inr (District_card '' BHOPAL '', c2,
               Waste_char_section
                 \<lparr>waste_kpi_card_1 = pct, bar_fig = bars, pie_fig = pies,
                  vehicle_cards = (2, 0, 0)\<rparr>,
               c4))
   \<and> update_dashboard (probe_solver (Fin 30)) [bhopal] (Dict (Some [Some '' BHOPAL '']))
        = Inl PulpSolverError
   \<and> update_dashboard failing_solver [bhopal] (Dict (Some [Some '' BHOPAL '']))
        = Inl PulpSolverError"
proof -
  let ?a = "all_zero \<lparr>attr_sw_gen := Fin 40, attr_sw_proc := Fin 10, attr_sw_gap := Fin 30\<rparr>"
  have res: "resolve bhopal = Inr ?a"
    by (simp add: resolve_def bhopal_def row_get_def safe_def all_zero_def)
  have c: "attr_census_pop ?a = Fin 0" "attr_pop_2025 ?a = Fin 0" "\<not> (0 < (0::real) \<and> (0::real) < 0)"
    by (simp_all add: all_zero_def)
  from required_capacity_is_generated [OF match_bhopal res c, of "[]"]
  obtain c2 pct bars pies c4 where
    all: "\<And>solve. update_dashboard solve [bhopal] (Dict (Some [Some '' BHOPAL ''])) =
            bindE (solve (vehicle_problem (attr_sw_gen ?a))) (\<lambda>(x, y, z).
            bindE (int_value x) (\<lambda>bulk_opt.
            bindE (int_value y) (\<lambda>lcv_opt.
            bindE (int_value z) (\<lambda>tri_opt.
              Inr (District_card '' BHOPAL '', c2,
                   Waste_char_section
                     \<lparr>waste_kpi_card_1 = pct, bar_fig = bars, pie_fig = pies,
                      vehicle_cards = (bulk_opt, lcv_opt, tri_opt)\<rparr>,
                   c4)))))"
    by blast
  have "update_dashboard (probe_solver (Fin 40)) [bhopal] (Dict (Some [Some '' BHOPAL '']))
        = Inr (District_card '' BHOPAL '', c2,
               Waste_char_section
                 \<lparr>waste_kpi_card_1 = pct, bar_fig = bars, pie_fig = pies,
                  vehicle_cards = (2, 0, 0)\<rparr>,
               c4)"
    unfolding all
    by (simp add: all_zero_def probe_solver_def two_trucks_solver_def vehicle_problem_def int_value_def)
  moreover have "update_dashboard (probe_solver (Fin 30)) [bhopal] (Dict (Some [Some '' BHOPAL '']))
        = Inl PulpSolverError"
    unfolding all by (simp add: all_zero_def probe_solver_def vehicle_problem_def)
  moreover have "update_dashboard failing_solver [bhopal] (Dict (Some [Some '' BHOPAL '']))
        = Inl PulpSolverError"
    unfolding all by (simp add: failing_solver_def)
  ultimately show ?thesis by blast
qed

text \<open>
  C8, as the spec states it: a requirement of 0 or less is a base case that never reaches
  the search. The callback has no such case: with a generated figure of 0 it still calls the
  solver, so a solver that raises makes the callback raise.
\<close>

theorem no_base_case_counterexample:
  "safe (row_get idle ''Sum of SW_Generation (TPD)'' (PInt 0)) = Inr (Fin 0)
   \<and> update_dashboard failing_solver [idle] (click_on ''Bhopal'') = Inl PulpSolverError"
  using idle_fails by (simp add: idle_def row_get_def safe_def)
lemma feasible_nonpos:
  assumes "W \<le> 0"
  shows "feasible (vehicle_problem (Fin W)) q"
proof -
  obtain x y z where q: "q = (x, y, z)" by (cases q) auto
  have "0 \<le> 20 * real x + 3.8 * real y + 0.5 * real z" by simp
  with assms show ?thesis
    by (simp add: feasible_def vehicle_problem_def dot_def q)
qed
text \<open>
  C8, amended: for a requirement of 0 or less the problem goes to the solver unchanged; its
  only optimal plan is zero vehicles of every type, at objective value 0, so when the
  solver answers with an optimal plan the three vehicle cards show 0.
\<close>

theorem zero_requirement:
  assumes "W \<le> 0"
  shows "(optimal (vehicle_problem (Fin W)) p \<longleftrightarrow> p = (0, 0, 0))
     \<and> dot (objective (vehicle_problem (Fin W))) (0, 0, 0) = 0
     \<and> (safe (row_get r ''Sum of SW_Generation (TPD)'' (PInt 0)) = Inr (Fin W)
          \<and> solve (vehicle_problem (Fin W)) = Inr (Some (Fin (real x)), Some (Fin (real y)), Some (Fin (real z)))
          \<and> optimal (vehicle_problem (Fin W)) (x, y, z)
          \<and> report solve name r = Inr (c1, c2, c3, c4)
         \<longrightarrow> (\<exists>w. c3 = Waste_char_section w \<and> vehicle_cards w = (0, 0, 0)))"
proof -
  have opt: "optimal (vehicle_problem (Fin W)) q \<longleftrightarrow> q = (0, 0, 0)" for q
  proof
    assume o: "optimal (vehicle_problem (Fin W)) q"
    obtain a b c where q: "q = (a, b, c)" by (cases q) auto
    from o feasible_nonpos [OF assms, of "(0, 0, 0)"]
    have "dot (objective (vehicle_problem (Fin W))) q \<le> dot (objective (vehicle_problem (Fin W))) (0, 0, 0)"
      by (simp add: optimal_def)
    then have "2354 * real a + 1926 * real b + 913 * real c \<le> 0"
      by (simp add: dot_def vehicle_problem_def q)
    moreover have "0 \<le> real a" "0 \<le> real b" "0 \<le> real c" by simp_all
    ultimately have "real a = 0 \<and> real b = 0 \<and> real c = 0" by linarith
    then show "q = (0, 0, 0)" by (simp add: q)
  next
    assume q: "q = (0, 0, 0)"
    have "0 \<le> dot (objective (vehicle_problem (Fin W))) q'" for q'
      by (cases q') (simp add: dot_def vehicle_problem_def)
    then show "optimal (vehicle_problem (Fin W)) q"
      using feasible_nonpos [OF assms] by (simp add: optimal_def q dot_def vehicle_problem_def)
  qed
  have shown: "\<exists>w. c3 = Waste_char_section w \<and> vehicle_cards w = (0, 0, 0)"
    if g: "safe (row_get r ''Sum of SW_Generation (TPD)'' (PInt 0)) = Inr (Fin W)"
      and s: "solve (vehicle_problem (Fin W)) = Inr (Some (Fin (real x)), Some (Fin (real y)), Some (Fin (real z)))"
      and o: "optimal (vehicle_problem (Fin W)) (x, y, z)"
      and rep: "report solve name r = Inr (c1, c2, c3, c4)"
  proof -
    from o have xyz: "x = 0" "y = 0" "z = 0" by (simp_all add: opt)
    from report_vehicles [OF rep] g s obtain w where
      "c3 = Waste_char_section w"
      "Inr (vehicle_cards w) =
         bindE (int_value (Some (Fin (real x)))) (\<lambda>a. bindE (int_value (Some (Fin (real y))))
           (\<lambda>b. bindE (int_value (Some (Fin (real z)))) (\<lambda>c. Inr (a, b, c))))"
      by auto
    then show ?thesis by (simp add: xyz int_value_def)
  qed
  show ?thesis
    using opt [of p] shown by (simp add: dot_def vehicle_problem_def)
qed

theorem zero_requirement_witness:
  "optimal (vehicle_problem (Fin 0)) (0, 0, 0) \<and> \<not> optimal (vehicle_problem (Fin 0)) (1, 0, 0)
   \<and> dot (objective (vehicle_problem (Fin 0))) (0, 0, 0) = 0
   \<and> optimal (vehicle_problem (Fin (- 3))) (0, 0, 0)
   \<and> (\<exists>c1 c2 w c4. report zero_solver ''Bhopal'' idle = Inr (c1, c2, Waste_char_section w, c4)
          \<and> vehicle_cards w = (0, 0, 0))"
proof -
  have opt: "optimal (vehicle_problem (Fin 0)) (0, 0, 0) \<and> \<not> optimal (vehicle_problem (Fin 0)) (1, 0, 0)
      \<and> dot (objective (vehicle_problem (Fin 0))) (0, 0, 0) = 0
      \<and> optimal (vehicle_problem (Fin (- 3))) (0, 0, 0)"
    using zero_requirement [of 0 "(0, 0, 0)"] zero_requirement [of 0 "(1, 0, 0)"]
      zero_requirement [of "- 3" "(0, 0, 0)"]
    by simp
  have g: "safe (row_get idle ''Sum of SW_Generation (TPD)'' (PInt 0)) = Inr (Fin 0)"
    by (simp add: idle_def row_get_def safe_def)
  have s: "zero_solver (vehicle_problem (Fin 0)) =
      Inr (Some (Fin (real 0)), Some (Fin (real 0)), Some (Fin (real 0)))"
    by (simp add: zero_solver_def)
  obtain c1 c2 c3 c4 where rep: "report zero_solver ''Bhopal'' idle = Inr (c1, c2, c3, c4)"
    by (simp add: idle_def report_eval zero_solver_def)
  from zero_requirement [of 0 "(0, 0, 0)" idle zero_solver 0 0 0 "''Bhopal''" c1 c2 c3 c4] g s opt rep
  obtain w where "c3 = Waste_char_section w" "vehicle_cards w = (0, 0, 0)"
    by auto
  with rep opt show ?thesis by blast
qed

subsection \<open>The growth rate\<close>

lemma filter_rel:
  assumes "list_all2 R xs ys" and "\<And>x y. R x y \<Longrightarrow> P x = Q y"
  shows "list_all2 R (filter P xs) (filter Q ys)"
  using assms by (induction rule: list_all2_induct) auto
text \<open>
  C10, as stated: two rows that differ only in the decadal growth rate give the same
  outputs. The cell is still coerced by \<^verbatim>\<open>safe\<close>, so a row whose growth rate is text that
  is not a number raises where the same row with a number gives a report.
\<close>

theorem growth_rate_counterexample:
  "update_dashboard zero_solver
      [bhopal(''Average of Decadal Grouth Rate in % (During 2001-2011)'' \<mapsto> PStr ''n.a.'')]
      (click_on ''Bhopal'') = Inl ValueError
   \<and> update_dashboard zero_solver
      [bhopal(''Average of Decadal Grouth Rate in % (During 2001-2011)'' \<mapsto> PFloat (Fin 5))]
      (click_on ''Bhopal'') \<noteq> Inl ValueError"
  by (simp add: update_dashboard_def click_on_def match_row_def bhopal_def name_defs report_eval
      zero_solver_def float_parse_defs)

text \<open>
  C10, amended: two data frames whose rows differ at most in the decadal growth rate, all
  of whose growth-rate cells pass \<^verbatim>\<open>safe\<close> without an exception, give the same outputs
  for every click and every solver.
\<close>

theorem growth_rate_unused:
  assumes rel: "list_all2 (\<lambda>r' r. \<forall>k. k \<noteq> ''Average of Decadal Grouth Rate in % (During 2001-2011)''
                                   \<longrightarrow> r' k = r k) df' df"
    and ok: "\<forall>r \<in> set df \<union> set df'.
               \<exists>f. safe (row_get r ''Average of Decadal Grouth Rate in % (During 2001-2011)'' PNone) = Inr f"
  shows "update_dashboard solve df' click = update_dashboard solve df click"
proof -
  let ?G = "''Average of Decadal Grouth Rate in % (During 2001-2011)''"
  let ?R = "\<lambda>r' r. \<forall>k. k \<noteq> ?G \<longrightarrow> r' k = r k"
  have step: "(case match_row df' name of
                 [] \<Rightarrow> Inr (no_data, no_data, no_data, no_data)
               | r # _ \<Rightarrow> report solve name r)
            = (case match_row df name of
                 [] \<Rightarrow> Inr (no_data, no_data, no_data, no_data)
               | r # _ \<Rightarrow> report solve name r)" for name
  proof -
    have key: "district_key x = district_key y" if "?R x y" for x y
      using that by (simp add: district_key_def)
    have m: "list_all2 ?R (match_row df' name) (match_row df name)"
      unfolding match_row_def by (rule filter_rel [OF rel]) (drule key, simp)
    show ?thesis
    proof (cases "match_row df name")
      case Nil
      with m show ?thesis by simp
    next
      case (Cons r rest)
      with m obtain r' rest' where c': "match_row df' name = r' # rest'" and R: "?R r' r"
        by (auto simp: list_all2_Cons2)
      have "r \<in> set df" and "r' \<in> set df'"
        using Cons c' by (metis filter_is_subset list.set_intros(1) match_row_def subsetD)+
      with ok obtain f f' where "safe (row_get r ?G PNone) = Inr f" "safe (row_get r' ?G PNone) = Inr f'"
        by (metis UnCI)
      with R have "report solve name r' = report solve name r"
        by (intro report_growth_rate) auto
      with Cons c' show ?thesis by simp
    qed
  qed
  show ?thesis
  proof (cases click)
    case Falsy
    then show ?thesis by (simp add: update_dashboard_def)
  next
    case (Dict pts)
    show ?thesis
    proof (cases pts)
      case None
      with Dict show ?thesis by (simp add: update_dashboard_def)
    next
      case (Some points)
      show ?thesis
      proof (cases points)
        case Nil
        with Dict Some show ?thesis by (simp add: update_dashboard_def)
      next
        case (Cons point ps)
        show ?thesis
        proof (cases point)
          case None
          with Dict Some Cons show ?thesis by (simp add: update_dashboard_def)
        next
          case (Some name)
          with Dict \<open>pts = Some points\<close> Cons step [of name] show ?thesis
            by (simp add: update_dashboard_def)
        qed
      qed
    qed
  qed
qed

theorem growth_rate_unused_witness:
  "update_dashboard zero_solver
      [bhopal(''Average of Decadal Grouth Rate in % (During 2001-2011)'' \<mapsto> PFloat (Fin 5))]
      (click_on ''Bhopal'')
   = update_dashboard zero_solver [bhopal] (click_on ''Bhopal'')"
proof -
  let ?G = "''Average of Decadal Grouth Rate in % (During 2001-2011)''"
  have rel: "list_all2 (\<lambda>r' r. \<forall>k. k \<noteq> ?G \<longrightarrow> r' k = r k) [bhopal(?G \<mapsto> PFloat (Fin 5))] [bhopal]"
    by simp
  have ok: "\<forall>r \<in> set [bhopal] \<union> set [bhopal(?G \<mapsto> PFloat (Fin 5))].
               \<exists>f. safe (row_get r ?G PNone) = Inr f"
    by (simp add: bhopal_def row_get_def safe_def)
  show ?thesis
    by (rule growth_rate_unused [OF rel ok])
qed

subsection \<open>The optimizer of the specification\<close>

lemma foldl_better_None: "foldl better a xs = None \<longleftrightarrow> a = None \<and> (\<forall>x \<in> set xs. x = None)"
proof (induction xs arbitrary: a)
  case Nil
  then show ?case by simp
next
  case (Cons x xs)
  have "better a x = None \<longleftrightarrow> a = None \<and> x = None"
    by (cases a; cases x) (auto split: if_splits)
  with Cons show ?case by auto
qed




lemma dot_product_Cons [simp]:
  "dot_product (c # cs) (n # ns) = c * real n + dot_product cs ns"
  by (simp add: dot_product_def)

lemma dot_product_Nil [simp]: "dot_product [] ns = 0" "dot_product cs [] = 0"
  by (simp_all add: dot_product_def)


lemma dot_product_zeros [simp]: "dot_product cs (map (\<lambda>t. 0) xs) = 0"
proof (induction cs arbitrary: xs)
  case Nil
  then show ?case by simp
next
  case (Cons c cs)
  then show ?case by (cases xs) simp_all
qed






end
